theory Spec2Isabelle
  imports Main "HOL-Library.AList"
begin

section \<open>Python values and exceptions\<close>

text \<open>
  The arguments of the client's methods are untyped Python objects. The model keeps the
  kinds of value the code can tell apart: \<open>None\<close>, booleans, integers, text and bytes.
  Floating point values are outside the model.
\<close>

datatype pyval = PNone | PBool bool | PInt int | PStr string | PBytes string

text \<open>Python's truth value of an object, as tested by \<open>if x\<close>, \<open>x and y\<close>, \<open>not x\<close>.\<close>

fun truthy :: "pyval \<Rightarrow> bool" where
  "truthy PNone = False"
| "truthy (PBool b) = b"
| "truthy (PInt i) = (i \<noteq> 0)"
| "truthy (PStr s) = (s \<noteq> [])"
| "truthy (PBytes b) = (b \<noteq> [])"

text \<open>
  The exceptions that can leave a method. \<open>ValueError\<close> carries its message.
  \<open>OpenError\<close> stands for whatever \<open>open(path, 'rb')\<close> raises on a path it cannot open,
  \<open>TransportError\<close> for whatever the session's \<open>post\<close> raises, and \<open>HTTPError\<close> (with the
  status code) for the exception of \<open>Response.raise_for_status\<close>.
\<close>

datatype error =
    ValueError string
  | OpenError
  | TransportError
  | HTTPError int
  | AttributeError
  | KeyError
  | TypeError
  | IndexError

section \<open>Decoded JSON bodies\<close>

text \<open>
  What \<open>response.json()\<close> returns. An object is kept as the list of its members in
  document order; a lookup takes the last member of a name, as the decoder does.
  Numbers are integers here.
\<close>

datatype json =
    JNull
  | JBool bool
  | JNum int
  | JStr string
  | JArr "json list"
  | JObj "(string \<times> json) list"

definition dict_get :: "(string \<times> json) list \<Rightarrow> string \<Rightarrow> json option" where
  "dict_get kvs k = map_of (rev kvs) k"

fun json_truthy :: "json \<Rightarrow> bool" where
  "json_truthy JNull = False"
| "json_truthy (JBool b) = b"
| "json_truthy (JNum i) = (i \<noteq> 0)"
| "json_truthy (JStr s) = (s \<noteq> [])"
| "json_truthy (JArr xs) = (xs \<noteq> [])"
| "json_truthy (JObj kvs) = (kvs \<noteq> [])"

text \<open>
  Text is Latin-1 here: a character is a code point below 256. \<open>str.lower\<close> maps the
  capital letters of that range (\<open>A\<close> to \<open>Z\<close>, and U+00C0 to U+00DE without the
  multiplication sign U+00D7) to the letter 32 places up and keeps every other character.
\<close>

definition lower_char :: "char \<Rightarrow> char" where
  "lower_char c =
     (let n = (of_char c :: nat) in
      if (65 \<le> n \<and> n \<le> 90) \<or> (192 \<le> n \<and> n \<le> 222 \<and> n \<noteq> 215)
      then char_of (n + 32) else c)"

definition lower :: "string \<Rightarrow> string" where
  "lower s = map lower_char s"

text \<open>\<open>x[0]\<close>, \<open>x.get("title", default)\<close> and \<open>x.lower()\<close> on a decoded JSON value.
  Each raises on the kinds of value that do not support it.\<close>

fun subscript0 :: "json \<Rightarrow> error + json" where
  "subscript0 (JArr (x # xs)) = Inr x"
| "subscript0 (JArr []) = Inl IndexError"
| "subscript0 (JStr (c # cs)) = Inr (JStr [c])"
| "subscript0 (JStr []) = Inl IndexError"
| "subscript0 (JObj kvs) = Inl KeyError"
| "subscript0 JNull = Inl TypeError"
| "subscript0 (JBool b) = Inl TypeError"
| "subscript0 (JNum i) = Inl TypeError"

fun get_title :: "json \<Rightarrow> string \<Rightarrow> error + json" where
  "get_title (JObj kvs) dflt =
     Inr (case dict_get kvs ''title'' of None \<Rightarrow> JStr dflt | Some v \<Rightarrow> v)"
| "get_title JNull dflt = Inl AttributeError"
| "get_title (JBool b) dflt = Inl AttributeError"
| "get_title (JNum i) dflt = Inl AttributeError"
| "get_title (JStr s) dflt = Inl AttributeError"
| "get_title (JArr xs) dflt = Inl AttributeError"

fun lower_method :: "json \<Rightarrow> error + string" where
  "lower_method (JStr s) = Inr (lower s)"
| "lower_method JNull = Inl AttributeError"
| "lower_method (JBool b) = Inl AttributeError"
| "lower_method (JNum i) = Inl AttributeError"
| "lower_method (JArr xs) = Inl AttributeError"
| "lower_method (JObj kvs) = Inl AttributeError"

section \<open>Requests, responses and the world\<close>

text \<open>
  A response of the HTTP library: status code, body bytes, and the decoded body
  (\<open>None\<close> when \<open>response.json()\<close> raises \<open>ValueError\<close>).
\<close>

record response =
  status_code :: int
  content :: string
  json_body :: "json option"

text \<open>
  The keyword arguments of one \<open>session.post\<close> call. Dictionaries are association lists
  in insertion order; file parts are open handles. \<open>req_files\<close> is \<open>None\<close> where the
  code passes \<open>files=None\<close>.
\<close>

record request =
  req_url :: string
  req_files :: "(string \<times> nat) list option"
  req_data :: "(string \<times> pyval) list"
  req_headers :: "(string \<times> pyval) list"
  req_timeout :: pyval

datatype post_result = PostRaises | PostReturns response

text \<open>
  How writing a result file ends: the content is written; or \<open>open(name, 'wb')\<close> raises
  and the file system is untouched; or the file is opened, which creates or empties it,
  and the write or the closing flush raises after some first bytes of the content (their
  number is given, none when it is 0) reached the file.
\<close>

datatype write_outcome = Written | OpenFails | WriteFails nat

text \<open>
  What lies outside the program and answers it: the session (what a \<open>post\<close> does) and
  how writing to a file name ends.
\<close>

record env =
  net :: "request \<Rightarrow> post_result"
  writing :: "pyval \<Rightarrow> write_outcome"

datatype log_entry =
    WriteFailed pyval
  | SaveFailed pyval string int

text \<open>
  The state a call can change: the files by name, the handles opened and closed so far
  (in order), the records passed to \<open>_logger.error\<close>, and the \<open>post\<close> calls made.
\<close>

record world =
  fs :: "pyval \<Rightarrow> string option"
  opened :: "nat list"
  closed :: "nat list"
  logged :: "log_entry list"
  posts :: "request list"

text \<open>\<open>open(path, 'rb')\<close>: a fresh handle on an existing file, an exception otherwise.\<close>

definition open_rb :: "world \<Rightarrow> pyval \<Rightarrow> error + (nat \<times> world)" where
  "open_rb w path =
     (case fs w path of
        None \<Rightarrow> Inl OpenError
      | Some _ \<Rightarrow>
          (let h = length (opened w) in Inr (h, w\<lparr>opened := opened w @ [h]\<rparr>)))"

text \<open>Closing a handle that was opened for reading; it does not raise.\<close>

definition close_handle :: "nat \<Rightarrow> world \<Rightarrow> world" where
  "close_handle h w = w\<lparr>closed := closed w @ [h]\<rparr>"

text \<open>\<open>session.post(...)\<close>: the call is recorded, and the session raises or answers.\<close>

definition session_post :: "env \<Rightarrow> world \<Rightarrow> request \<Rightarrow> (error + response) \<times> world" where
  "session_post e w r =
     (case net e r of
        PostRaises \<Rightarrow> (Inl TransportError, w\<lparr>posts := posts w @ [r]\<rparr>)
      | PostReturns resp \<Rightarrow> (Inr resp, w\<lparr>posts := posts w @ [r]\<rparr>))"

text \<open>\<open>Response.raise_for_status\<close> of the HTTP library: client and server error
  statuses raise.\<close>

definition raise_for_status :: "response \<Rightarrow> error + unit" where
  "raise_for_status resp =
     (if 400 \<le> status_code resp \<and> status_code resp < 600
      then Inl (HTTPError (status_code resp)) else Inr ())"

section \<open>The client\<close>

definition API_ENDPOINT :: string where
  "API_ENDPOINT = ''https://api.remove.bg/v1.0/removebg''"

definition DEFAULT_TIMEOUT :: pyval where
  "DEFAULT_TIMEOUT = PInt 30"

record RemoveBg =
  api_key :: pyval
  timeout :: pyval

text \<open>The constructor, without its logging set-up.\<close>

definition init :: "pyval \<Rightarrow> pyval \<Rightarrow> RemoveBg" where
  "init key tmo =
     \<lparr>api_key = key, timeout = (if tmo \<noteq> PNone then tmo else DEFAULT_TIMEOUT)\<rparr>"

subsection \<open>\<open>_check_arguments\<close>\<close>

definition allowed_size :: "pyval list" where
  "allowed_size = map PStr
     [''auto'', ''preview'', ''small'', ''regular'', ''medium'', ''hd'', ''full'', ''4k'']"

definition allowed_type :: "pyval list" where
  "allowed_type = map PStr
     [''auto'', ''person'', ''product'', ''animal'', ''car'', ''car_interior'', ''car_part'',
      ''transportation'', ''graphics'', ''other'']"

definition allowed_type_level :: "pyval list" where
  "allowed_type_level = map PStr [''none'', ''latest'', ''1'', ''2'']"

definition allowed_format :: "pyval list" where
  "allowed_format = map PStr [''jpg'', ''zip'', ''png'', ''auto'']"

definition allowed_channels :: "pyval list" where
  "allowed_channels = map PStr [''rgba'', ''alpha'']"

definition check_arguments ::
  "pyval \<Rightarrow> pyval \<Rightarrow> pyval \<Rightarrow> pyval \<Rightarrow> pyval \<Rightarrow> error + unit" where
  "check_arguments sz ty lvl fmt chn =
     (if sz \<notin> set allowed_size then Inl (ValueError ''size argument wrong'')
      else if ty \<notin> set allowed_type then Inl (ValueError ''type argument wrong'')
      else if lvl \<notin> set allowed_type_level then Inl (ValueError ''type_level argument wrong'')
      else if fmt \<notin> set allowed_format then Inl (ValueError ''format argument wrong'')
      else if chn \<notin> set allowed_channels then Inl (ValueError ''channels argument wrong'')
      else Inr ())"

subsection \<open>\<open>_output_file\<close>\<close>

text \<open>
  The reason extracted from an error response (the \<open>try\<close> block of the failure branch).
  Only \<open>ValueError\<close> from \<open>response.json()\<close> is caught; the exceptions of the
  subscript, of \<open>.get\<close> and of \<open>.lower\<close> leave the method.
\<close>

definition error_reason :: "response \<Rightarrow> error + string" where
  "error_reason resp =
     (case json_body resp of
        None \<Rightarrow> Inr ''unknown error''
      | Some payload \<Rightarrow>
          (case payload of
             JObj kvs \<Rightarrow>
               (case dict_get kvs ''errors'' of
                  None \<Rightarrow> Inr ''unknown error''
                | Some errs \<Rightarrow>
                    if json_truthy errs then
                      (case subscript0 errs of
                         Inl ex \<Rightarrow> Inl ex
                       | Inr first \<Rightarrow>
                           (case get_title first ''unknown error'' of
                              Inl ex \<Rightarrow> Inl ex
                            | Inr title \<Rightarrow> lower_method title))
                    else Inr ''unknown error'')
           | _ \<Rightarrow> Inr ''unknown error''))"

text \<open>
  On status 200 the content is written under \<open>with open(new_file_name, 'wb')\<close>. Any
  exception of the \<open>open\<close>, of the \<open>write\<close> or of the closing of the file is caught and
  logged; once the \<open>open\<close> has succeeded the handle is closed by the \<open>with\<close> statement
  and the file holds what reached it. Any other status logs the file name, the reason
  and the status code.
\<close>

definition output_file :: "env \<Rightarrow> world \<Rightarrow> response \<Rightarrow> pyval \<Rightarrow> (error + unit) \<times> world" where
  "output_file e w resp new_file_name =
     (if status_code resp = 200 then
        (case writing e new_file_name of
           Written \<Rightarrow>
             (let h = length (opened w) in
              (Inr (), w\<lparr>fs := (fs w)(new_file_name \<mapsto> content resp),
                          opened := opened w @ [h], closed := closed w @ [h]\<rparr>))
         | OpenFails \<Rightarrow>
             (Inr (), w\<lparr>logged := logged w @ [WriteFailed new_file_name]\<rparr>)
         | WriteFails k \<Rightarrow>
             (let h = length (opened w) in
              (Inr (), w\<lparr>fs := (fs w)(new_file_name \<mapsto> take k (content resp)),
                          opened := opened w @ [h], closed := closed w @ [h],
                          logged := logged w @ [WriteFailed new_file_name]\<rparr>)))
      else
        (case error_reason resp of
           Inl ex \<Rightarrow> (Inl ex, w)
         | Inr reason \<Rightarrow>
             (Inr (), w\<lparr>logged := logged w @
                           [SaveFailed new_file_name reason (status_code resp)]\<rparr>)))"

subsection \<open>\<open>_build_common_data\<close>\<close>

definition build_common_data ::
  "pyval \<Rightarrow> pyval \<Rightarrow> pyval \<Rightarrow> pyval \<Rightarrow> pyval \<Rightarrow> pyval \<Rightarrow> pyval \<Rightarrow> pyval \<Rightarrow> pyval \<Rightarrow> pyval \<Rightarrow> pyval
     \<Rightarrow> (string \<times> pyval) list" where
  "build_common_data sz ty lvl fmt roi' crop' scale' position' chn shadow' semi =
     [(''size'', sz),
      (''type'', ty),
      (''type_level'', lvl),
      (''format'', fmt),
      (''roi'', roi'),
      (''crop'', PStr (if truthy crop' then ''true'' else ''false'')),
      (''crop_margin'', crop'),
      (''scale'', scale'),
      (''position'', position'),
      (''channels'', chn),
      (''add_shadow'', PStr (if truthy shadow' then ''true'' else ''false'')),
      (''semitransparency'', PStr (if truthy semi then ''true'' else ''false''))]"

subsection \<open>The three entry operations\<close>

text \<open>The keyword arguments shared by the three operations, and their defaults.\<close>

record kwargs =
  size_arg :: pyval
  type_arg :: pyval
  type_level :: pyval
  format :: pyval
  roi :: pyval
  crop :: pyval
  scale :: pyval
  position :: pyval
  channels :: pyval
  shadow :: pyval
  semitransparency :: pyval
  bg :: pyval
  bg_type :: pyval
  new_file_name :: pyval
  return_bytes :: pyval

definition defaults :: kwargs where
  "defaults =
     \<lparr>size_arg = PStr ''regular'', type_arg = PStr ''auto'', type_level = PStr ''none'',
      format = PStr ''auto'', roi = PStr ''0 0 100% 100%'', crop = PNone,
      scale = PStr ''original'', position = PStr ''original'', channels = PStr ''rgba'',
      shadow = PBool False, semitransparency = PBool True, bg = PNone, bg_type = PNone,
      new_file_name = PStr ''no-bg.png'', return_bytes = PBool False\<rparr>"

definition common_data :: "kwargs \<Rightarrow> (string \<times> pyval) list" where
  "common_data a =
     build_common_data (size_arg a) (type_arg a) (type_level a) (format a) (roi a) (crop a)
       (scale a) (position a) (channels a) (shadow a) (semitransparency a)"

text \<open>
  The background block, the same in the three operations
  (\<open>if bg_type == 'path' and bg: ... elif bg_type == 'color' and bg: ... elif bg_type == 'url' and bg: ...\<close>).
  It returns the two dictionaries and \<open>bg_file_handle\<close>.
\<close>

definition attach_background ::
  "world \<Rightarrow> (string \<times> nat) list \<Rightarrow> (string \<times> pyval) list \<Rightarrow> pyval \<Rightarrow> pyval
     \<Rightarrow> error + ((string \<times> nat) list \<times> (string \<times> pyval) list \<times> nat option \<times> world)" where
  "attach_background w files data bg' bg_type' =
     (if bg_type' = PStr ''path'' \<and> truthy bg' then
        (case open_rb w bg' of
           Inl ex \<Rightarrow> Inl ex
         | Inr (h, w') \<Rightarrow> Inr (AList.update ''bg_image_file'' h files, data, Some h, w'))
      else if bg_type' = PStr ''color'' \<and> truthy bg' then
        Inr (files, AList.update ''bg_color'' bg' data, None, w)
      else if bg_type' = PStr ''url'' \<and> truthy bg' then
        Inr (files, AList.update ''bg_image_url'' bg' data, None, w)
      else Inr (files, data, None, w))"

text \<open>
  The response block, the same in the three operations: \<open>raise_for_status\<close>, then the
  content is returned and/or handed to \<open>_output_file\<close>; a call that returns nothing
  returns \<open>None\<close>.
\<close>

definition handle_response ::
  "env \<Rightarrow> world \<Rightarrow> response \<Rightarrow> pyval \<Rightarrow> pyval \<Rightarrow> (error + pyval) \<times> world" where
  "handle_response e w resp new_file_name' return_bytes' =
     (case raise_for_status resp of
        Inl ex \<Rightarrow> (Inl ex, w)
      | Inr _ \<Rightarrow>
          if truthy return_bytes' then
            (if truthy new_file_name' then
               (case output_file e w resp new_file_name' of
                  (Inl ex, w') \<Rightarrow> (Inl ex, w')
                | (Inr _, w') \<Rightarrow> (Inr (PBytes (content resp)), w'))
             else (Inr (PBytes (content resp)), w))
          else if truthy new_file_name' then
            (case output_file e w resp new_file_name' of
               (Inl ex, w') \<Rightarrow> (Inl ex, w')
             | (Inr _, w') \<Rightarrow> (Inr PNone, w'))
          else (Inr PNone, w))"

text \<open>The keyword arguments of the \<open>post\<close> call, the same in the three operations: the
  endpoint, the two dictionaries, the key in a header and the client's timeout.\<close>

definition request_of ::
  "RemoveBg \<Rightarrow> (string \<times> nat) list option \<Rightarrow> (string \<times> pyval) list \<Rightarrow> request" where
  "request_of self files data =
     \<lparr>req_url = API_ENDPOINT, req_files = files, req_data = data,
      req_headers = [(''X-Api-Key'', api_key self)], req_timeout = timeout self\<rparr>"

text \<open>
  The request and what follows it, the same in the three operations: one \<open>post\<close>, then
  the response block. An exception of \<open>post\<close> leaves the block at once.
\<close>

definition post_and_deliver ::
  "env \<Rightarrow> RemoveBg \<Rightarrow> world \<Rightarrow> (string \<times> nat) list option \<Rightarrow> (string \<times> pyval) list
     \<Rightarrow> pyval \<Rightarrow> pyval \<Rightarrow> (error + pyval) \<times> world" where
  "post_and_deliver e self w files data new_file_name' return_bytes' =
     (case session_post e w (request_of self files data) of
        (Inl ex, w') \<Rightarrow> (Inl ex, w')
      | (Inr resp, w') \<Rightarrow> handle_response e w' resp new_file_name' return_bytes')"

text \<open>The \<open>finally\<close> clause: \<open>bg_file_handle\<close> is closed when it was set.\<close>

definition close_bg :: "nat option \<Rightarrow> world \<Rightarrow> world" where
  "close_bg bgh w = (case bgh of None \<Rightarrow> w | Some h \<Rightarrow> close_handle h w)"

text \<open>
  In each operation the body of the \<open>try\<close> yields an outcome, a world and the value of
  \<open>bg_file_handle\<close> at that point; the \<open>finally\<close> clause then runs on every outcome. In
  the file variant the \<open>with\<close> statement closes the image file first, also on every
  outcome of its body.
\<close>

definition remove_background_from_img_file ::
  "env \<Rightarrow> RemoveBg \<Rightarrow> world \<Rightarrow> pyval \<Rightarrow> kwargs \<Rightarrow> (error + pyval) \<times> world" where
  "remove_background_from_img_file e self w img_file_path a =
     (case check_arguments (size_arg a) (type_arg a) (type_level a) (format a) (channels a) of
        Inl ex \<Rightarrow> (Inl ex, w)
      | Inr _ \<Rightarrow>
          (case open_rb w img_file_path of
             Inl ex \<Rightarrow> (Inl ex, w)
           | Inr (img_file, w1) \<Rightarrow>
               (case (case attach_background w1 [(''image_file'', img_file)] (common_data a)
                             (bg a) (bg_type a) of
                        Inl ex \<Rightarrow> ((Inl ex, w1), None)
                      | Inr (files, data, bgh, w2) \<Rightarrow>
                          (post_and_deliver e self w2 (Some files) data
                             (new_file_name a) (return_bytes a), bgh)) of
                  ((out, w3), bgh) \<Rightarrow> (out, close_bg bgh (close_handle img_file w3)))))"

definition remove_background_from_img_url ::
  "env \<Rightarrow> RemoveBg \<Rightarrow> world \<Rightarrow> pyval \<Rightarrow> kwargs \<Rightarrow> (error + pyval) \<times> world" where
  "remove_background_from_img_url e self w img_url a =
     (case check_arguments (size_arg a) (type_arg a) (type_level a) (format a) (channels a) of
        Inl ex \<Rightarrow> (Inl ex, w)
      | Inr _ \<Rightarrow>
          if \<not> truthy (return_bytes a) \<and> new_file_name a = PNone then
            (Inl (ValueError ''Either provide new_file_name or set return_bytes=True''), w)
          else
            (case (case attach_background w []
                          (AList.update ''image_url'' img_url (common_data a))
                          (bg a) (bg_type a) of
                     Inl ex \<Rightarrow> ((Inl ex, w), None)
                   | Inr (files, data, bgh, w2) \<Rightarrow>
                       (post_and_deliver e self w2 (if files \<noteq> [] then Some files else None)
                          data (new_file_name a) (return_bytes a), bgh)) of
               ((out, w3), bgh) \<Rightarrow> (out, close_bg bgh w3)))"

definition remove_background_from_base64_img ::
  "env \<Rightarrow> RemoveBg \<Rightarrow> world \<Rightarrow> pyval \<Rightarrow> kwargs \<Rightarrow> (error + pyval) \<times> world" where
  "remove_background_from_base64_img e self w base64_img a =
     (case check_arguments (size_arg a) (type_arg a) (type_level a) (format a) (channels a) of
        Inl ex \<Rightarrow> (Inl ex, w)
      | Inr _ \<Rightarrow>
          if \<not> truthy (return_bytes a) \<and> new_file_name a = PNone then
            (Inl (ValueError ''Either provide new_file_name or set return_bytes=True''), w)
          else
            (case (case attach_background w []
                          (AList.update ''image_file_b64'' base64_img (common_data a))
                          (bg a) (bg_type a) of
                     Inl ex \<Rightarrow> ((Inl ex, w), None)
                   | Inr (files, data, bgh, w2) \<Rightarrow>
                       (post_and_deliver e self w2 (if files \<noteq> [] then Some files else None)
                          data (new_file_name a) (return_bytes a), bgh)) of
               ((out, w3), bgh) \<Rightarrow> (out, close_bg bgh w3)))"

section \<open>Observations used by the properties\<close>

text \<open>The requests a call sent: the \<open>post\<close> calls recorded between two worlds.\<close>

definition sent :: "world \<Rightarrow> world \<Rightarrow> request list" where
  "sent w w' = drop (length (posts w)) (posts w')"

text \<open>A call was answered with \<open>resp\<close> when it sent a request that the session answered
  with that response: the call reached its response block.\<close>

definition answered :: "env \<Rightarrow> world \<Rightarrow> world \<Rightarrow> response \<Rightarrow> bool" where
  "answered e w w' resp = (\<exists>r \<in> set (sent w w'). net e r = PostReturns resp)"

text \<open>A field appears in a request as a form field or as a file part.\<close>

definition has_field :: "request \<Rightarrow> string \<Rightarrow> bool" where
  "has_field r k =
     (k \<in> fst ` set (req_data r) \<or>
      (case req_files r of None \<Rightarrow> False | Some fl \<Rightarrow> k \<in> fst ` set fl))"

definition bg_fields :: "request \<Rightarrow> string list" where
  "bg_fields r = filter (has_field r) [''bg_image_file'', ''bg_color'', ''bg_image_url'']"

text \<open>Between two worlds, the handles opened since the first are among the handles
  closed since the first, and the earlier history is kept.\<close>

definition released :: "world \<Rightarrow> world \<Rightarrow> bool" where
  "released w w' =
     (take (length (opened w)) (opened w') = opened w \<and>
      take (length (closed w)) (closed w') = closed w \<and>
      set (drop (length (opened w)) (opened w')) \<subseteq> set (drop (length (closed w)) (closed w')))"

text \<open>The background field that goes with the arguments: the one named by \<open>bg_type\<close>
  when a background value is given, none otherwise.\<close>

definition selected_background :: "kwargs \<Rightarrow> string list" where
  "selected_background a =
     (if truthy (bg a) \<and> bg_type a = PStr ''path'' then [''bg_image_file'']
      else if truthy (bg a) \<and> bg_type a = PStr ''color'' then [''bg_color'']
      else if truthy (bg a) \<and> bg_type a = PStr ''url'' then [''bg_image_url'']
      else [])"

definition entry_operations ::
  "(env \<Rightarrow> RemoveBg \<Rightarrow> world \<Rightarrow> pyval \<Rightarrow> kwargs \<Rightarrow> (error + pyval) \<times> world) set" where
  "entry_operations =
     {remove_background_from_img_file, remove_background_from_img_url,
      remove_background_from_base64_img}"

definition valid_arguments :: "kwargs \<Rightarrow> bool" where
  "valid_arguments a =
     (size_arg a \<in> set allowed_size \<and> type_arg a \<in> set allowed_type \<and>
      type_level a \<in> set allowed_type_level \<and> format a \<in> set allowed_format \<and>
      channels a \<in> set allowed_channels)"

subsection \<open>Concrete inputs\<close>

text \<open>A world with a source image and a background image on disk, a client built by the
  constructor, and a session that gives every request the same result, with one way for every write to end.\<close>

definition example_world :: world where
  "example_world =
     \<lparr>fs = [PStr ''in.jpg'' \<mapsto> ''IMG'', PStr ''bg.jpg'' \<mapsto> ''BG''],
      opened = [], closed = [], logged = [], posts = []\<rparr>"

definition example_client :: RemoveBg where
  "example_client = init (PStr ''secret'') PNone"

definition mock_env :: "post_result \<Rightarrow> write_outcome \<Rightarrow> env" where
  "mock_env answer wr = \<lparr>net = (\<lambda>r. answer), writing = (\<lambda>n. wr)\<rparr>"

text \<open>Responses: a success, a success status other than 200, the error body of the
  service under an error status and under a redirect status, and an error body whose
  \<open>errors\<close> member is a list of texts.\<close>

definition ok_response :: response where
  "ok_response = \<lparr>status_code = 200, content = ''PNG'', json_body = None\<rparr>"


definition error_body :: json where
  "error_body = JObj [(''errors'', JArr [JObj [(''title'', JStr ''Foo Bar'')]])]"

definition not_found_response :: response where
  "not_found_response = \<lparr>status_code = 404, content = [], json_body = Some error_body\<rparr>"

definition redirect_response :: response where
  "redirect_response = \<lparr>status_code = 302, content = [], json_body = Some error_body\<rparr>"

definition malformed_error_response :: response where
  "malformed_error_response =
     \<lparr>status_code = 302, content = [],
      json_body = Some (JObj [(''errors'', JArr [JStr ''Bad Request''])])\<rparr>"

section \<open>Properties\<close>

subsection \<open>Argument validation\<close>

lemma check_arguments_valid:
  "valid_arguments a \<Longrightarrow>
     check_arguments (size_arg a) (type_arg a) (type_level a) (format a) (channels a) = Inr ()"
  by (simp add: valid_arguments_def check_arguments_def)

lemma check_arguments_invalid:
  "\<not> valid_arguments a \<Longrightarrow>
     \<exists>msg. check_arguments (size_arg a) (type_arg a) (type_level a) (format a) (channels a)
              = Inl (ValueError msg)"
  by (auto simp: valid_arguments_def check_arguments_def)

text \<open>
  Claim C2. In each of the three entry operations, a value of \<open>size\<close>, \<open>type\<close>,
  \<open>type_level\<close>, \<open>format\<close> or \<open>channels\<close> outside its enumeration makes the call raise
  \<open>ValueError\<close>, and the world is left as it was: no \<open>post\<close> is recorded, no file is
  opened, nothing is logged.
\<close>

theorem invalid_option_rejected_before_network:
  assumes "size_arg a \<notin> set allowed_size \<or> type_arg a \<notin> set allowed_type \<or>
           type_level a \<notin> set allowed_type_level \<or> format a \<notin> set allowed_format \<or>
           channels a \<notin> set allowed_channels"
  shows "(\<exists>msg. remove_background_from_img_file e self w src a = (Inl (ValueError msg), w)) \<and>
         (\<exists>msg. remove_background_from_img_url e self w src a = (Inl (ValueError msg), w)) \<and>
         (\<exists>msg. remove_background_from_base64_img e self w src a = (Inl (ValueError msg), w))"
proof -
  from assms have "\<not> valid_arguments a"
    by (auto simp: valid_arguments_def)
  then obtain msg where
    m: "check_arguments (size_arg a) (type_arg a) (type_level a) (format a) (channels a)
          = Inl (ValueError msg)"
    using check_arguments_invalid by blast
  show ?thesis
    by (simp add: remove_background_from_img_file_def remove_background_from_img_url_def
          remove_background_from_base64_img_def m)
qed

theorem invalid_option_rejected_before_network_witness:
  "PStr ''huge'' \<notin> set allowed_size \<and>
   (\<exists>msg. remove_background_from_img_file (mock_env PostRaises Written) example_client
            example_world (PStr ''in.jpg'') (defaults\<lparr>size_arg := PStr ''huge''\<rparr>)
          = (Inl (ValueError msg), example_world)) \<and>
   (\<exists>msg. remove_background_from_img_url (mock_env PostRaises Written) example_client
            example_world (PStr ''http://host/in.jpg'') (defaults\<lparr>size_arg := PStr ''huge''\<rparr>)
          = (Inl (ValueError msg), example_world)) \<and>
   (\<exists>msg. remove_background_from_base64_img (mock_env PostRaises Written) example_client
            example_world (PStr ''aGVsbG8='') (defaults\<lparr>size_arg := PStr ''huge''\<rparr>)
          = (Inl (ValueError msg), example_world))"
proof -
  have h: "PStr ''huge'' \<notin> set allowed_size"
    by (simp add: allowed_size_def)
  then have "size_arg (defaults\<lparr>size_arg := PStr ''huge''\<rparr>) \<notin> set allowed_size"
    by simp
  from invalid_option_rejected_before_network [OF disjI1, OF this] h
  show ?thesis by blast
qed

subsection \<open>The shape of a call\<close>

text \<open>
  The lemmas of this part describe the outcomes of the building blocks and, from them,
  of the three operations: a call either fails before any request is sent, or it sends
  exactly one request and ends as the request-and-response block ends, after which the
  handles it opened are closed.
\<close>

lemma open_rb_eq:
  "open_rb w p =
     (if fs w p = None then Inl OpenError
      else Inr (length (opened w), w\<lparr>opened := opened w @ [length (opened w)]\<rparr>))"
  by (auto simp: open_rb_def Let_def split: option.splits)

lemma attach_background_eq:
  "attach_background w files data b bt =
     (if bt = PStr ''path'' \<and> truthy b then
        (if fs w b = None then Inl OpenError
         else Inr (AList.update ''bg_image_file'' (length (opened w)) files, data,
                   Some (length (opened w)), w\<lparr>opened := opened w @ [length (opened w)]\<rparr>))
      else if bt = PStr ''color'' \<and> truthy b then
        Inr (files, AList.update ''bg_color'' b data, None, w)
      else if bt = PStr ''url'' \<and> truthy b then
        Inr (files, AList.update ''bg_image_url'' b data, None, w)
      else Inr (files, data, None, w))"
  by (simp add: attach_background_def open_rb_eq)

lemma common_data_keys:
  "fst ` set (common_data a) =
     {''size'', ''type'', ''type_level'', ''format'', ''roi'', ''crop'', ''crop_margin'',
      ''scale'', ''position'', ''channels'', ''add_shadow'', ''semitransparency''}"
  by (simp add: common_data_def build_common_data_def)

lemma source_data_has_no_background:
  assumes "k = ''image_url'' \<or> k = ''image_file_b64''"
  shows "''bg_image_file'' \<notin> fst ` set (AList.update k v (common_data a))"
    and "''bg_color'' \<notin> fst ` set (AList.update k v (common_data a))"
    and "''bg_image_url'' \<notin> fst ` set (AList.update k v (common_data a))"
  using assms by (auto simp: dom_update common_data_keys)

lemma common_data_has_no_background:
  "''bg_image_file'' \<notin> fst ` set (common_data a)"
  "''bg_color'' \<notin> fst ` set (common_data a)"
  "''bg_image_url'' \<notin> fst ` set (common_data a)"
  by (simp_all add: common_data_keys)

lemma bg_fields_request_of:
  "bg_fields (request_of self fo data) =
     filter (\<lambda>k. k \<in> fst ` set data \<or> (case fo of None \<Rightarrow> False | Some fl \<Rightarrow> k \<in> fst ` set fl))
       [''bg_image_file'', ''bg_color'', ''bg_image_url'']"
  by (simp add: bg_fields_def has_field_def request_of_def)

lemma attach_background_none:
  assumes "\<not> (bt = PStr ''path'' \<and> truthy b)" "\<not> (bt = PStr ''color'' \<and> truthy b)"
    "\<not> (bt = PStr ''url'' \<and> truthy b)"
  shows "attach_background w files data b bt = Inr (files, data, None, w)"
proof (cases "truthy b")
  case True
  with assms have "bt \<noteq> PStr ''path''" "bt \<noteq> PStr ''color''" "bt \<noteq> PStr ''url''"
    by blast+
  then show ?thesis by (simp add: attach_background_def)
next
  case False
  then show ?thesis by (simp add: attach_background_def)
qed

lemma selected_background_none:
  assumes "\<not> (bg_type a = PStr ''path'' \<and> truthy (bg a))"
    "\<not> (bg_type a = PStr ''color'' \<and> truthy (bg a))"
    "\<not> (bg_type a = PStr ''url'' \<and> truthy (bg a))"
  shows "selected_background a = []"
proof (cases "truthy (bg a)")
  case True
  with assms have "bg_type a \<noteq> PStr ''path''" "bg_type a \<noteq> PStr ''color''"
    "bg_type a \<noteq> PStr ''url''"
    by blast+
  then show ?thesis by (simp add: selected_background_def)
next
  case False
  then show ?thesis by (simp add: selected_background_def)
qed

lemma img_file_cases [case_names rejected unopened request]:
  obtains
    (rejected) msg where "\<not> valid_arguments a"
      "remove_background_from_img_file e self w src a = (Inl (ValueError msg), w)"
  | (unopened) hs where "valid_arguments a"
      "fs w src = None \<or> (bg_type a = PStr ''path'' \<and> truthy (bg a) \<and> fs w (bg a) = None)"
      "remove_background_from_img_file e self w src a =
         (Inl OpenError, w\<lparr>opened := opened w @ hs, closed := closed w @ hs\<rparr>)"
  | (request) hs fo data where "valid_arguments a" "fs w src \<noteq> None"
      "\<not> (bg_type a = PStr ''path'' \<and> truthy (bg a) \<and> fs w (bg a) = None)"
      "remove_background_from_img_file e self w src a =
         (fst (post_and_deliver e self (w\<lparr>opened := opened w @ hs\<rparr>) fo data
                 (new_file_name a) (return_bytes a)),
          (snd (post_and_deliver e self (w\<lparr>opened := opened w @ hs\<rparr>) fo data
                 (new_file_name a) (return_bytes a)))
            \<lparr>closed := closed (snd (post_and_deliver e self (w\<lparr>opened := opened w @ hs\<rparr>)
                                      fo data (new_file_name a) (return_bytes a))) @ hs\<rparr>)"
      "bg_fields (request_of self fo data) = selected_background a"
proof (cases "valid_arguments a")
  case False
  then obtain msg where
    "check_arguments (size_arg a) (type_arg a) (type_level a) (format a) (channels a)
       = Inl (ValueError msg)"
    using check_arguments_invalid by blast
  then have "remove_background_from_img_file e self w src a = (Inl (ValueError msg), w)"
    by (simp add: remove_background_from_img_file_def)
  with False show thesis by (rule rejected)
next
  case True
  note chk = check_arguments_valid [OF True]
  let ?h = "length (opened w)"
  consider (no_image) "fs w src = None"
    | (no_bg) "fs w src \<noteq> None" "bg_type a = PStr ''path''" "truthy (bg a)" "fs w (bg a) = None"
    | (path) "fs w src \<noteq> None" "bg_type a = PStr ''path''" "truthy (bg a)" "fs w (bg a) \<noteq> None"
    | (color) "fs w src \<noteq> None" "bg_type a = PStr ''color''" "truthy (bg a)"
    | (url) "fs w src \<noteq> None" "bg_type a = PStr ''url''" "truthy (bg a)"
    | (none) "fs w src \<noteq> None"
        "\<not> (bg_type a = PStr ''path'' \<and> truthy (bg a))"
        "\<not> (bg_type a = PStr ''color'' \<and> truthy (bg a))"
        "\<not> (bg_type a = PStr ''url'' \<and> truthy (bg a))"
    by blast
  then show thesis
  proof cases
    case no_image
    then have eq: "remove_background_from_img_file e self w src a =
        (Inl OpenError, w\<lparr>opened := opened w @ [], closed := closed w @ []\<rparr>)"
      by (simp add: remove_background_from_img_file_def chk open_rb_eq)
    from no_image have "fs w src = None \<or>
        (bg_type a = PStr ''path'' \<and> truthy (bg a) \<and> fs w (bg a) = None)" ..
    then show thesis by (rule unopened [OF True _ eq])
  next
    case no_bg
    then have eq: "remove_background_from_img_file e self w src a =
        (Inl OpenError, w\<lparr>opened := opened w @ [?h], closed := closed w @ [?h]\<rparr>)"
      by (simp add: remove_background_from_img_file_def chk open_rb_eq attach_background_eq
            close_bg_def close_handle_def del: not_None_eq)
    from no_bg have "fs w src = None \<or>
        (bg_type a = PStr ''path'' \<and> truthy (bg a) \<and> fs w (bg a) = None)" by simp
    then show thesis by (rule unopened [OF True _ eq])
  next
    case path
    have eq: "remove_background_from_img_file e self w src a =
         (fst (post_and_deliver e self (w\<lparr>opened := opened w @ [?h, Suc ?h]\<rparr>)
                 (Some [(''image_file'', ?h), (''bg_image_file'', Suc ?h)]) (common_data a)
                 (new_file_name a) (return_bytes a)),
          (snd (post_and_deliver e self (w\<lparr>opened := opened w @ [?h, Suc ?h]\<rparr>)
                 (Some [(''image_file'', ?h), (''bg_image_file'', Suc ?h)]) (common_data a)
                 (new_file_name a) (return_bytes a)))
            \<lparr>closed := closed (snd (post_and_deliver e self (w\<lparr>opened := opened w @ [?h, Suc ?h]\<rparr>)
                 (Some [(''image_file'', ?h), (''bg_image_file'', Suc ?h)]) (common_data a)
                 (new_file_name a) (return_bytes a))) @ [?h, Suc ?h]\<rparr>)"
      using path
      by (simp add: remove_background_from_img_file_def chk open_rb_eq attach_background_eq
            close_bg_def close_handle_def case_prod_beta del: not_None_eq)
    have bf: "bg_fields (request_of self
        (Some [(''image_file'', ?h), (''bg_image_file'', Suc ?h)]) (common_data a))
        = selected_background a"
      using path
      by (simp add: bg_fields_request_of selected_background_def common_data_has_no_background)
    show thesis by (rule request [OF True path(1) _ eq bf]) (use path in simp)
  next
    case color
    have eq: "remove_background_from_img_file e self w src a =
         (fst (post_and_deliver e self (w\<lparr>opened := opened w @ [?h]\<rparr>)
                 (Some [(''image_file'', ?h)]) (AList.update ''bg_color'' (bg a) (common_data a))
                 (new_file_name a) (return_bytes a)),
          (snd (post_and_deliver e self (w\<lparr>opened := opened w @ [?h]\<rparr>)
                 (Some [(''image_file'', ?h)]) (AList.update ''bg_color'' (bg a) (common_data a))
                 (new_file_name a) (return_bytes a)))
            \<lparr>closed := closed (snd (post_and_deliver e self (w\<lparr>opened := opened w @ [?h]\<rparr>)
                 (Some [(''image_file'', ?h)]) (AList.update ''bg_color'' (bg a) (common_data a))
                 (new_file_name a) (return_bytes a))) @ [?h]\<rparr>)"
      using color
      by (simp add: remove_background_from_img_file_def chk open_rb_eq attach_background_eq
            close_bg_def close_handle_def case_prod_beta del: not_None_eq)
    have bf: "bg_fields (request_of self
        (Some [(''image_file'', ?h)]) (AList.update ''bg_color'' (bg a) (common_data a)))
        = selected_background a"
      using color
      by (simp add: bg_fields_request_of selected_background_def dom_update
            common_data_has_no_background)
    show thesis by (rule request [OF True color(1) _ eq bf]) (use color in simp)
  next
    case url
    have eq: "remove_background_from_img_file e self w src a =
         (fst (post_and_deliver e self (w\<lparr>opened := opened w @ [?h]\<rparr>)
                 (Some [(''image_file'', ?h)]) (AList.update ''bg_image_url'' (bg a) (common_data a))
                 (new_file_name a) (return_bytes a)),
          (snd (post_and_deliver e self (w\<lparr>opened := opened w @ [?h]\<rparr>)
                 (Some [(''image_file'', ?h)]) (AList.update ''bg_image_url'' (bg a) (common_data a))
                 (new_file_name a) (return_bytes a)))
            \<lparr>closed := closed (snd (post_and_deliver e self (w\<lparr>opened := opened w @ [?h]\<rparr>)
                 (Some [(''image_file'', ?h)]) (AList.update ''bg_image_url'' (bg a) (common_data a))
                 (new_file_name a) (return_bytes a))) @ [?h]\<rparr>)"
      using url
      by (simp add: remove_background_from_img_file_def chk open_rb_eq attach_background_eq
            close_bg_def close_handle_def case_prod_beta del: not_None_eq)
    have bf: "bg_fields (request_of self
        (Some [(''image_file'', ?h)]) (AList.update ''bg_image_url'' (bg a) (common_data a)))
        = selected_background a"
      using url
      by (simp add: bg_fields_request_of selected_background_def dom_update
            common_data_has_no_background)
    show thesis by (rule request [OF True url(1) _ eq bf]) (use url in simp)
  next
    case none
    have eq: "remove_background_from_img_file e self w src a =
         (fst (post_and_deliver e self (w\<lparr>opened := opened w @ [?h]\<rparr>)
                 (Some [(''image_file'', ?h)]) (common_data a)
                 (new_file_name a) (return_bytes a)),
          (snd (post_and_deliver e self (w\<lparr>opened := opened w @ [?h]\<rparr>)
                 (Some [(''image_file'', ?h)]) (common_data a)
                 (new_file_name a) (return_bytes a)))
            \<lparr>closed := closed (snd (post_and_deliver e self (w\<lparr>opened := opened w @ [?h]\<rparr>)
                 (Some [(''image_file'', ?h)]) (common_data a)
                 (new_file_name a) (return_bytes a))) @ [?h]\<rparr>)"
      using none(1) attach_background_none [OF none(2-4)]
      by (simp add: remove_background_from_img_file_def chk open_rb_eq
            close_bg_def close_handle_def case_prod_beta del: not_None_eq)
    have bf: "bg_fields (request_of self
        (Some [(''image_file'', ?h)]) (common_data a)) = selected_background a"
      using selected_background_none [OF none(2-4)]
      by (simp add: bg_fields_request_of common_data_has_no_background)
    show thesis by (rule request [OF True none(1) _ eq bf]) (use none(2) in blast)
  qed
qed


lemma form_request_cases [consumes 4, case_names unopened request]:
  assumes t_def: "t =
     (case (case attach_background w [] d0 (bg a) (bg_type a) of
              Inl ex \<Rightarrow> ((Inl ex, w), None)
            | Inr (files, data, bgh, w2) \<Rightarrow>
                (post_and_deliver e self w2 (if files \<noteq> [] then Some files else None)
                   data (new_file_name a) (return_bytes a), bgh)) of
        ((out, w3), bgh) \<Rightarrow> (out, close_bg bgh w3))"
    and d0: "''bg_image_file'' \<notin> fst ` set d0" "''bg_color'' \<notin> fst ` set d0"
    "''bg_image_url'' \<notin> fst ` set d0"
  obtains
    (unopened) "bg_type a = PStr ''path''" "truthy (bg a)" "fs w (bg a) = None"
      "t = (Inl OpenError, w)"
  | (request) hs fo data where
      "\<not> (bg_type a = PStr ''path'' \<and> truthy (bg a) \<and> fs w (bg a) = None)"
      "t = (fst (post_and_deliver e self (w\<lparr>opened := opened w @ hs\<rparr>) fo data
                 (new_file_name a) (return_bytes a)),
            (snd (post_and_deliver e self (w\<lparr>opened := opened w @ hs\<rparr>) fo data
                 (new_file_name a) (return_bytes a)))
              \<lparr>closed := closed (snd (post_and_deliver e self (w\<lparr>opened := opened w @ hs\<rparr>)
                                        fo data (new_file_name a) (return_bytes a))) @ hs\<rparr>)"
      "bg_fields (request_of self fo data) = selected_background a"
proof -
  let ?h = "length (opened w)"
  consider (no_bg) "bg_type a = PStr ''path''" "truthy (bg a)" "fs w (bg a) = None"
    | (path) "bg_type a = PStr ''path''" "truthy (bg a)" "fs w (bg a) \<noteq> None"
    | (color) "bg_type a = PStr ''color''" "truthy (bg a)"
    | (url) "bg_type a = PStr ''url''" "truthy (bg a)"
    | (none) "\<not> (bg_type a = PStr ''path'' \<and> truthy (bg a))"
        "\<not> (bg_type a = PStr ''color'' \<and> truthy (bg a))"
        "\<not> (bg_type a = PStr ''url'' \<and> truthy (bg a))"
    by blast
  then show thesis
  proof cases
    case no_bg
    then have "t = (Inl OpenError, w)"
      by (simp add: t_def attach_background_eq close_bg_def)
    with no_bg show thesis by (rule unopened)
  next
    case path
    have eq: "t =
         (fst (post_and_deliver e self (w\<lparr>opened := opened w @ [?h]\<rparr>)
                 (Some [(''bg_image_file'', ?h)]) d0 (new_file_name a) (return_bytes a)),
          (snd (post_and_deliver e self (w\<lparr>opened := opened w @ [?h]\<rparr>)
                 (Some [(''bg_image_file'', ?h)]) d0 (new_file_name a) (return_bytes a)))
            \<lparr>closed := closed (snd (post_and_deliver e self (w\<lparr>opened := opened w @ [?h]\<rparr>)
                 (Some [(''bg_image_file'', ?h)]) d0 (new_file_name a) (return_bytes a)))
                 @ [?h]\<rparr>)"
      using path
      by (simp add: t_def attach_background_eq close_bg_def close_handle_def case_prod_beta
            del: not_None_eq)
    have bf: "bg_fields (request_of self (Some [(''bg_image_file'', ?h)]) d0)
        = selected_background a"
      using path d0 by (simp add: bg_fields_request_of selected_background_def)
    show thesis by (rule request [OF _ eq bf]) (use path in simp)
  next
    case color
    have eq: "t =
         (fst (post_and_deliver e self (w\<lparr>opened := opened w @ []\<rparr>)
                 None (AList.update ''bg_color'' (bg a) d0) (new_file_name a) (return_bytes a)),
          (snd (post_and_deliver e self (w\<lparr>opened := opened w @ []\<rparr>)
                 None (AList.update ''bg_color'' (bg a) d0) (new_file_name a) (return_bytes a)))
            \<lparr>closed := closed (snd (post_and_deliver e self (w\<lparr>opened := opened w @ []\<rparr>)
                 None (AList.update ''bg_color'' (bg a) d0) (new_file_name a) (return_bytes a)))
                 @ []\<rparr>)"
      using color
      by (simp add: t_def attach_background_eq close_bg_def case_prod_beta)
    have bf: "bg_fields (request_of self None (AList.update ''bg_color'' (bg a) d0))
        = selected_background a"
      using color d0 by (simp add: bg_fields_request_of selected_background_def dom_update)
    show thesis by (rule request [OF _ eq bf]) (use color in simp)
  next
    case url
    have eq: "t =
         (fst (post_and_deliver e self (w\<lparr>opened := opened w @ []\<rparr>)
                 None (AList.update ''bg_image_url'' (bg a) d0) (new_file_name a) (return_bytes a)),
          (snd (post_and_deliver e self (w\<lparr>opened := opened w @ []\<rparr>)
                 None (AList.update ''bg_image_url'' (bg a) d0) (new_file_name a) (return_bytes a)))
            \<lparr>closed := closed (snd (post_and_deliver e self (w\<lparr>opened := opened w @ []\<rparr>)
                 None (AList.update ''bg_image_url'' (bg a) d0) (new_file_name a) (return_bytes a)))
                 @ []\<rparr>)"
      using url
      by (simp add: t_def attach_background_eq close_bg_def case_prod_beta)
    have bf: "bg_fields (request_of self None (AList.update ''bg_image_url'' (bg a) d0))
        = selected_background a"
      using url d0 by (simp add: bg_fields_request_of selected_background_def dom_update)
    show thesis by (rule request [OF _ eq bf]) (use url in simp)
  next
    case none
    have eq: "t =
         (fst (post_and_deliver e self (w\<lparr>opened := opened w @ []\<rparr>)
                 None d0 (new_file_name a) (return_bytes a)),
          (snd (post_and_deliver e self (w\<lparr>opened := opened w @ []\<rparr>)
                 None d0 (new_file_name a) (return_bytes a)))
            \<lparr>closed := closed (snd (post_and_deliver e self (w\<lparr>opened := opened w @ []\<rparr>)
                 None d0 (new_file_name a) (return_bytes a))) @ []\<rparr>)"
      using attach_background_none [OF none]
      by (simp add: t_def close_bg_def case_prod_beta)
    have bf: "bg_fields (request_of self None d0) = selected_background a"
      using selected_background_none [OF none] d0 by (simp add: bg_fields_request_of)
    show thesis by (rule request [OF _ eq bf]) (use none(1) in blast)
  qed
qed


lemma img_url_cases [case_names rejected unopened request]:
  obtains
    (rejected) msg where
      "\<not> valid_arguments a \<or> (\<not> truthy (return_bytes a) \<and> new_file_name a = PNone)"
      "remove_background_from_img_url e self w src a = (Inl (ValueError msg), w)"
  | (unopened) "valid_arguments a" "truthy (return_bytes a) \<or> new_file_name a \<noteq> PNone"
      "bg_type a = PStr ''path'' \<and> truthy (bg a) \<and> fs w (bg a) = None"
      "remove_background_from_img_url e self w src a = (Inl OpenError, w)"
  | (request) hs fo data where "valid_arguments a"
      "truthy (return_bytes a) \<or> new_file_name a \<noteq> PNone"
      "\<not> (bg_type a = PStr ''path'' \<and> truthy (bg a) \<and> fs w (bg a) = None)"
      "remove_background_from_img_url e self w src a =
         (fst (post_and_deliver e self (w\<lparr>opened := opened w @ hs\<rparr>) fo data
                 (new_file_name a) (return_bytes a)),
          (snd (post_and_deliver e self (w\<lparr>opened := opened w @ hs\<rparr>) fo data
                 (new_file_name a) (return_bytes a)))
            \<lparr>closed := closed (snd (post_and_deliver e self (w\<lparr>opened := opened w @ hs\<rparr>)
                                      fo data (new_file_name a) (return_bytes a))) @ hs\<rparr>)"
      "bg_fields (request_of self fo data) = selected_background a"
proof (cases "valid_arguments a")
  case False
  then obtain msg where
    "check_arguments (size_arg a) (type_arg a) (type_level a) (format a) (channels a)
       = Inl (ValueError msg)"
    using check_arguments_invalid by blast
  then have eq: "remove_background_from_img_url e self w src a = (Inl (ValueError msg), w)"
    by (simp add: remove_background_from_img_url_def)
  from False have "\<not> valid_arguments a \<or>
      (\<not> truthy (return_bytes a) \<and> new_file_name a = PNone)" ..
  then show thesis using eq by (rule rejected)
next
  case True
  note chk = check_arguments_valid [OF True]
  show thesis
  proof (cases "\<not> truthy (return_bytes a) \<and> new_file_name a = PNone")
    case unset: True
    then have eq: "remove_background_from_img_url e self w src a =
        (Inl (ValueError ''Either provide new_file_name or set return_bytes=True''), w)"
      by (simp add: remove_background_from_img_url_def chk)
    from unset have "\<not> valid_arguments a \<or>
        (\<not> truthy (return_bytes a) \<and> new_file_name a = PNone)" ..
    then show thesis using eq by (rule rejected)
  next
    case False
    then have mode: "truthy (return_bytes a) \<or> new_file_name a \<noteq> PNone"
      by blast
    have unfold: "remove_background_from_img_url e self w src a =
       (case (case attach_background w [] (AList.update ''image_url'' src (common_data a))
                     (bg a) (bg_type a) of
                Inl ex \<Rightarrow> ((Inl ex, w), None)
              | Inr (files, data, bgh, w2) \<Rightarrow>
                  (post_and_deliver e self w2 (if files \<noteq> [] then Some files else None)
                     data (new_file_name a) (return_bytes a), bgh)) of
          ((out, w3), bgh) \<Rightarrow> (out, close_bg bgh w3))"
      by (simp only: remove_background_from_img_url_def chk sum.case if_not_P [OF False])
    have k: "''image_url'' = ''image_url'' \<or> ''image_url'' = ''image_file_b64''"
      by simp
    from unfold source_data_has_no_background [OF k] show thesis
    proof (cases rule: form_request_cases)
      case unopened
      then show thesis using True mode by (intro that(2)) simp_all
    next
      case (request hs fo data)
      show thesis by (rule that(3) [OF True mode request])
    qed
  qed
qed

lemma base64_img_cases [case_names rejected unopened request]:
  obtains
    (rejected) msg where
      "\<not> valid_arguments a \<or> (\<not> truthy (return_bytes a) \<and> new_file_name a = PNone)"
      "remove_background_from_base64_img e self w src a = (Inl (ValueError msg), w)"
  | (unopened) "valid_arguments a" "truthy (return_bytes a) \<or> new_file_name a \<noteq> PNone"
      "bg_type a = PStr ''path'' \<and> truthy (bg a) \<and> fs w (bg a) = None"
      "remove_background_from_base64_img e self w src a = (Inl OpenError, w)"
  | (request) hs fo data where "valid_arguments a"
      "truthy (return_bytes a) \<or> new_file_name a \<noteq> PNone"
      "\<not> (bg_type a = PStr ''path'' \<and> truthy (bg a) \<and> fs w (bg a) = None)"
      "remove_background_from_base64_img e self w src a =
         (fst (post_and_deliver e self (w\<lparr>opened := opened w @ hs\<rparr>) fo data
                 (new_file_name a) (return_bytes a)),
          (snd (post_and_deliver e self (w\<lparr>opened := opened w @ hs\<rparr>) fo data
                 (new_file_name a) (return_bytes a)))
            \<lparr>closed := closed (snd (post_and_deliver e self (w\<lparr>opened := opened w @ hs\<rparr>)
                                      fo data (new_file_name a) (return_bytes a))) @ hs\<rparr>)"
      "bg_fields (request_of self fo data) = selected_background a"
proof (cases "valid_arguments a")
  case False
  then obtain msg where
    "check_arguments (size_arg a) (type_arg a) (type_level a) (format a) (channels a)
       = Inl (ValueError msg)"
    using check_arguments_invalid by blast
  then have eq: "remove_background_from_base64_img e self w src a = (Inl (ValueError msg), w)"
    by (simp add: remove_background_from_base64_img_def)
  from False have "\<not> valid_arguments a \<or>
      (\<not> truthy (return_bytes a) \<and> new_file_name a = PNone)" ..
  then show thesis using eq by (rule rejected)
next
  case True
  note chk = check_arguments_valid [OF True]
  show thesis
  proof (cases "\<not> truthy (return_bytes a) \<and> new_file_name a = PNone")
    case unset: True
    then have eq: "remove_background_from_base64_img e self w src a =
        (Inl (ValueError ''Either provide new_file_name or set return_bytes=True''), w)"
      by (simp add: remove_background_from_base64_img_def chk)
    from unset have "\<not> valid_arguments a \<or>
        (\<not> truthy (return_bytes a) \<and> new_file_name a = PNone)" ..
    then show thesis using eq by (rule rejected)
  next
    case False
    then have mode: "truthy (return_bytes a) \<or> new_file_name a \<noteq> PNone"
      by blast
    have unfold: "remove_background_from_base64_img e self w src a =
       (case (case attach_background w [] (AList.update ''image_file_b64'' src (common_data a))
                     (bg a) (bg_type a) of
                Inl ex \<Rightarrow> ((Inl ex, w), None)
              | Inr (files, data, bgh, w2) \<Rightarrow>
                  (post_and_deliver e self w2 (if files \<noteq> [] then Some files else None)
                     data (new_file_name a) (return_bytes a), bgh)) of
          ((out, w3), bgh) \<Rightarrow> (out, close_bg bgh w3))"
      by (simp only: remove_background_from_base64_img_def chk sum.case if_not_P [OF False])
    have k: "''image_file_b64'' = ''image_url'' \<or> ''image_file_b64'' = ''image_file_b64''"
      by simp
    from unfold source_data_has_no_background [OF k] show thesis
    proof (cases rule: form_request_cases)
      case unopened
      then show thesis using True mode by (intro that(2)) simp_all
    next
      case (request hs fo data)
      show thesis by (rule that(3) [OF True mode request])
    qed
  qed
qed


lemma entry_operation_cases [consumes 1, case_names failed request]:
  assumes "op \<in> entry_operations"
  obtains
    (failed) ex hs where
      "op e self w src a = (Inl ex, w\<lparr>opened := opened w @ hs, closed := closed w @ hs\<rparr>)"
  | (request) hs fo data where "valid_arguments a"
      "op e self w src a =
         (fst (post_and_deliver e self (w\<lparr>opened := opened w @ hs\<rparr>) fo data
                 (new_file_name a) (return_bytes a)),
          (snd (post_and_deliver e self (w\<lparr>opened := opened w @ hs\<rparr>) fo data
                 (new_file_name a) (return_bytes a)))
            \<lparr>closed := closed (snd (post_and_deliver e self (w\<lparr>opened := opened w @ hs\<rparr>)
                                      fo data (new_file_name a) (return_bytes a))) @ hs\<rparr>)"
      "bg_fields (request_of self fo data) = selected_background a"
proof -
  have same: "w = w\<lparr>opened := opened w @ [], closed := closed w @ []\<rparr>"
    by simp
  from assms consider
      (is_file) "op = remove_background_from_img_file"
    | (is_url) "op = remove_background_from_img_url"
    | (is_b64) "op = remove_background_from_base64_img"
    by (auto simp: entry_operations_def)
  then show thesis
  proof cases
    case is_file
    show thesis
    proof (cases rule: img_file_cases [of a e self w src])
      case (rejected msg)
      with is_file same show thesis by (intro failed [of "ValueError msg" "[]"]) simp
    next
      case (unopened hs)
      with is_file show thesis by (intro failed [of OpenError hs]) simp
    next
      case (request hs fo data)
      with is_file show thesis by (intro that(2) [of hs fo data]) simp_all
    qed
  next
    case is_url
    show thesis
    proof (cases rule: img_url_cases [of a e self w src])
      case (rejected msg)
      with is_url same show thesis by (intro failed [of "ValueError msg" "[]"]) simp
    next
      case unopened
      with is_url same show thesis by (intro failed [of OpenError "[]"]) simp
    next
      case (request hs fo data)
      with is_url show thesis by (intro that(2) [of hs fo data]) simp_all
    qed
  next
    case is_b64
    show thesis
    proof (cases rule: base64_img_cases [of a e self w src])
      case (rejected msg)
      with is_b64 same show thesis by (intro failed [of "ValueError msg" "[]"]) simp
    next
      case unopened
      with is_b64 same show thesis by (intro failed [of OpenError "[]"]) simp
    next
      case (request hs fo data)
      with is_b64 show thesis by (intro that(2) [of hs fo data]) simp_all
    qed
  qed
qed


lemma handle_response_error_status:
  assumes "400 \<le> status_code resp" "status_code resp < 600"
  shows "handle_response e w resp n rb = (Inl (HTTPError (status_code resp)), w)"
  using assms by (simp add: handle_response_def raise_for_status_def)

lemma raise_for_status_passes:
  "\<not> (400 \<le> status_code resp \<and> status_code resp < 600) \<Longrightarrow> raise_for_status resp = Inr ()"
  by (auto simp: raise_for_status_def)

lemma handle_response_no_name:
  assumes "raise_for_status resp = Inr ()" "\<not> truthy n"
  shows "handle_response e w resp n rb =
           (Inr (if truthy rb then PBytes (content resp) else PNone), w)"
  using assms by (simp add: handle_response_def)

lemma handle_response_not_ok:
  assumes "raise_for_status resp = Inr ()"
    "status_code resp \<noteq> 200" "truthy n"
  shows "handle_response e w resp n rb =
           (case error_reason resp of
              Inl ex \<Rightarrow> (Inl ex, w)
            | Inr reason \<Rightarrow>
                (Inr (if truthy rb then PBytes (content resp) else PNone),
                 w\<lparr>logged := logged w @ [SaveFailed n reason (status_code resp)]\<rparr>))"
  using assms
  by (simp add: handle_response_def output_file_def split: sum.splits)

lemma handle_response_ok:
  assumes "status_code resp = 200" "truthy n"
  shows "handle_response e w resp n rb =
           (Inr (if truthy rb then PBytes (content resp) else PNone),
            case writing e n of
              Written \<Rightarrow>
                w\<lparr>fs := (fs w)(n \<mapsto> content resp),
                  opened := opened w @ [length (opened w)],
                  closed := closed w @ [length (opened w)]\<rparr>
            | OpenFails \<Rightarrow> w\<lparr>logged := logged w @ [WriteFailed n]\<rparr>
            | WriteFails k \<Rightarrow>
                w\<lparr>fs := (fs w)(n \<mapsto> take k (content resp)),
                  opened := opened w @ [length (opened w)],
                  closed := closed w @ [length (opened w)],
                  logged := logged w @ [WriteFailed n]\<rparr>)"
  using assms
  by (simp add: handle_response_def raise_for_status_def output_file_def Let_def
        split: write_outcome.splits)

lemma handle_response_posts: "posts (snd (handle_response e w resp n rb)) = posts w"
  by (simp add: handle_response_def raise_for_status_def output_file_def Let_def
        split: sum.splits write_outcome.splits)

lemma handle_response_handles:
  "\<exists>os. opened (snd (handle_response e w resp n rb)) = opened w @ os \<and>
        closed (snd (handle_response e w resp n rb)) = closed w @ os"
  by (simp add: handle_response_def raise_for_status_def output_file_def Let_def
        split: sum.splits write_outcome.splits)

lemma post_and_deliver_raises:
  assumes "net e (request_of self fo data) = PostRaises"
  shows "post_and_deliver e self w fo data n rb =
           (Inl TransportError, w\<lparr>posts := posts w @ [request_of self fo data]\<rparr>)"
  using assms by (simp add: post_and_deliver_def session_post_def)

lemma post_and_deliver_returns:
  assumes "net e (request_of self fo data) = PostReturns resp"
  shows "post_and_deliver e self w fo data n rb =
           handle_response e (w\<lparr>posts := posts w @ [request_of self fo data]\<rparr>) resp n rb"
  using assms by (simp add: post_and_deliver_def session_post_def)

lemma post_and_deliver_posts:
  "posts (snd (post_and_deliver e self w fo data n rb)) = posts w @ [request_of self fo data]"
  by (cases "net e (request_of self fo data)")
     (simp_all add: post_and_deliver_raises post_and_deliver_returns handle_response_posts)

lemma post_and_deliver_handles:
  "\<exists>os. opened (snd (post_and_deliver e self w fo data n rb)) = opened w @ os \<and>
        closed (snd (post_and_deliver e self w fo data n rb)) = closed w @ os"
proof (cases "net e (request_of self fo data)")
  case PostRaises
  then show ?thesis by (simp add: post_and_deliver_raises)
next
  case (PostReturns resp)
  then show ?thesis
    using handle_response_handles [of e "w\<lparr>posts := posts w @ [request_of self fo data]\<rparr>" resp n rb]
    by (simp add: post_and_deliver_returns)
qed

lemma sent_entry:
  assumes "op \<in> entry_operations"
  obtains (nothing) ex where "sent w (snd (op e self w src a)) = []"
      "fst (op e self w src a) = Inl ex" "fs (snd (op e self w src a)) = fs w"
      "logged (snd (op e self w src a)) = logged w"
  | (one) r where "sent w (snd (op e self w src a)) = [r]" "valid_arguments a"
      "bg_fields r = selected_background a"
      "net e r = PostRaises \<Longrightarrow>
         fst (op e self w src a) = Inl TransportError \<and>
         fs (snd (op e self w src a)) = fs w \<and> logged (snd (op e self w src a)) = logged w"
      "\<And>resp. net e r = PostReturns resp \<Longrightarrow>
         \<exists>w'. fs w' = fs w \<and> logged w' = logged w \<and>
           fst (op e self w src a) =
             fst (handle_response e w' resp (new_file_name a) (return_bytes a)) \<and>
           fs (snd (op e self w src a)) =
             fs (snd (handle_response e w' resp (new_file_name a) (return_bytes a))) \<and>
           logged (snd (op e self w src a)) =
             logged (snd (handle_response e w' resp (new_file_name a) (return_bytes a)))"
  using assms
proof (cases rule: entry_operation_cases [where e = e and self = self and w = w and src = src and a = a])
  case (failed ex hs)
  then have "sent w (snd (op e self w src a)) = []"
      "fst (op e self w src a) = Inl ex" "fs (snd (op e self w src a)) = fs w"
      "logged (snd (op e self w src a)) = logged w"
    by (simp_all add: sent_def)
  then show ?thesis by (rule nothing)
next
  case (request hs fo data)
  let ?r = "request_of self fo data"
  let ?w = "w\<lparr>opened := opened w @ hs\<rparr>"
  have s: "sent w (snd (op e self w src a)) = [?r]"
    by (simp add: request(2) sent_def post_and_deliver_posts)
  have raises: "fst (op e self w src a) = Inl TransportError \<and>
         fs (snd (op e self w src a)) = fs w \<and> logged (snd (op e self w src a)) = logged w"
    if "net e ?r = PostRaises"
    by (simp add: request(2) post_and_deliver_raises [OF that])
  have returns: "\<exists>w'. fs w' = fs w \<and> logged w' = logged w \<and>
           fst (op e self w src a) =
             fst (handle_response e w' resp (new_file_name a) (return_bytes a)) \<and>
           fs (snd (op e self w src a)) =
             fs (snd (handle_response e w' resp (new_file_name a) (return_bytes a))) \<and>
           logged (snd (op e self w src a)) =
             logged (snd (handle_response e w' resp (new_file_name a) (return_bytes a)))"
    if "net e ?r = PostReturns resp" for resp
    by (rule exI [of _ "?w\<lparr>posts := posts ?w @ [?r]\<rparr>"])
       (simp add: request(2) post_and_deliver_returns [OF that])
  show ?thesis
    by (rule one [OF s request(1) request(3) raises returns])
qed

lemma subscript0_not_ValueError: "subscript0 x \<noteq> Inl (ValueError m)"
  by (cases x rule: subscript0.cases) simp_all

lemma get_title_not_ValueError: "get_title x d \<noteq> Inl (ValueError m)"
  by (cases x) simp_all

lemma lower_method_not_ValueError: "lower_method x \<noteq> Inl (ValueError m)"
  by (cases x) simp_all

lemma error_reason_not_ValueError: "error_reason resp \<noteq> Inl (ValueError m)"
  by (auto simp: error_reason_def subscript0_not_ValueError get_title_not_ValueError
        lower_method_not_ValueError split: option.splits json.splits sum.splits)

lemma handle_response_not_ValueError:
  "fst (handle_response e w resp n rb) \<noteq> Inl (ValueError m)"
  using error_reason_not_ValueError [of resp m]
  by (auto simp: handle_response_def raise_for_status_def output_file_def Let_def
        split: sum.splits if_splits write_outcome.splits)

lemma post_and_deliver_not_ValueError:
  "fst (post_and_deliver e self w fo data n rb) \<noteq> Inl (ValueError m)"
  by (cases "net e (request_of self fo data)")
     (simp_all add: post_and_deliver_raises post_and_deliver_returns
        handle_response_not_ValueError)

lemma handle_response_fst_ok:
  assumes "status_code resp = 200"
  shows "fst (handle_response e w resp n rb) =
           Inr (if truthy rb then PBytes (content resp) else PNone)"
proof (cases "truthy n")
  case True
  with assms show ?thesis by (simp add: handle_response_ok)
next
  case False
  from assms have "raise_for_status resp = Inr ()"
    by (simp add: raise_for_status_def)
  with False show ?thesis by (simp add: handle_response_no_name)
qed

lemma answered_entry:
  assumes "op \<in> entry_operations" "answered e w (snd (op e self w src a)) resp"
  obtains w' where "fs w' = fs w" "logged w' = logged w"
    "fst (op e self w src a) =
       fst (handle_response e w' resp (new_file_name a) (return_bytes a))"
    "fs (snd (op e self w src a)) =
       fs (snd (handle_response e w' resp (new_file_name a) (return_bytes a)))"
    "logged (snd (op e self w src a)) =
       logged (snd (handle_response e w' resp (new_file_name a) (return_bytes a)))"
  using assms(1)
proof (cases rule: sent_entry [where e = e and self = self and w = w and src = src and a = a])
  case (nothing ex)
  with assms(2) show ?thesis by (simp add: answered_def)
next
  case (one r)
  with assms(2) have "net e r = PostReturns resp"
    by (simp add: answered_def)
  from one(5) [OF this] show ?thesis using that by blast
qed

lemma form_variant_cases [consumes 1, case_names rejected unopened request]:
  assumes "op = remove_background_from_img_url \<or> op = remove_background_from_base64_img"
  obtains
    (rejected) msg where
      "\<not> valid_arguments a \<or> (\<not> truthy (return_bytes a) \<and> new_file_name a = PNone)"
      "op e self w src a = (Inl (ValueError msg), w)"
  | (unopened) "bg_type a = PStr ''path'' \<and> truthy (bg a) \<and> fs w (bg a) = None"
      "op e self w src a = (Inl OpenError, w)"
  | (request) hs fo data where
      "op e self w src a =
         (fst (post_and_deliver e self (w\<lparr>opened := opened w @ hs\<rparr>) fo data
                 (new_file_name a) (return_bytes a)),
          (snd (post_and_deliver e self (w\<lparr>opened := opened w @ hs\<rparr>) fo data
                 (new_file_name a) (return_bytes a)))
            \<lparr>closed := closed (snd (post_and_deliver e self (w\<lparr>opened := opened w @ hs\<rparr>)
                                      fo data (new_file_name a) (return_bytes a))) @ hs\<rparr>)"
  using assms
proof
  assume op: "op = remove_background_from_img_url"
  show thesis
  proof (cases rule: img_url_cases [of a e self w src])
    case (rejected msg)
    with op show thesis by (intro that(1) [of msg]) simp_all
  next
    case unopened
    with op show thesis by (intro that(2)) simp_all
  next
    case (request hs fo data)
    with op show thesis by (intro that(3) [of hs fo data]) simp
  qed
next
  assume op: "op = remove_background_from_base64_img"
  show thesis
  proof (cases rule: base64_img_cases [of a e self w src])
    case (rejected msg)
    with op show thesis by (intro that(1) [of msg]) simp_all
  next
    case unopened
    with op show thesis by (intro that(2)) simp_all
  next
    case (request hs fo data)
    with op show thesis by (intro that(3) [of hs fo data]) simp
  qed
qed

subsection \<open>Form fields\<close>

text \<open>
  Claim C4. In the dictionary of \<open>_build_common_data\<close>, \<open>add_shadow\<close> and
  \<open>semitransparency\<close> are the text \<open>true\<close> when the flag is truthy and the text \<open>false\<close>
  otherwise, \<open>crop\<close> is \<open>true\<close> exactly when the crop margin is truthy (given and not
  empty), and \<open>crop_margin\<close> is the crop value itself. Each of the four names occurs once.
\<close>

theorem build_common_data_flags:
  "map_of (build_common_data sz ty lvl fmt r c sc po ch sh se) ''add_shadow'' =
      Some (PStr (if truthy sh then ''true'' else ''false'')) \<and>
   map_of (build_common_data sz ty lvl fmt r c sc po ch sh se) ''semitransparency'' =
      Some (PStr (if truthy se then ''true'' else ''false'')) \<and>
   map_of (build_common_data sz ty lvl fmt r c sc po ch sh se) ''crop'' =
      Some (PStr (if truthy c then ''true'' else ''false'')) \<and>
   map_of (build_common_data sz ty lvl fmt r c sc po ch sh se) ''crop_margin'' = Some c \<and>
   distinct (map fst (build_common_data sz ty lvl fmt r c sc po ch sh se))"
  by (simp add: build_common_data_def)

theorem build_common_data_flags_witness:
  "map_of (build_common_data (PStr ''regular'') (PStr ''auto'') (PStr ''none'') (PStr ''auto'')
             (PStr ''0 0 100% 100%'') (PStr ''10px'') (PStr ''original'') (PStr ''original'')
             (PStr ''rgba'') (PBool True) (PInt 0)) ''add_shadow'' = Some (PStr ''true'') \<and>
   map_of (build_common_data (PStr ''regular'') (PStr ''auto'') (PStr ''none'') (PStr ''auto'')
             (PStr ''0 0 100% 100%'') (PStr ''10px'') (PStr ''original'') (PStr ''original'')
             (PStr ''rgba'') (PBool True) (PInt 0)) ''semitransparency'' = Some (PStr ''false'') \<and>
   map_of (build_common_data (PStr ''regular'') (PStr ''auto'') (PStr ''none'') (PStr ''auto'')
             (PStr ''0 0 100% 100%'') (PStr ''10px'') (PStr ''original'') (PStr ''original'')
             (PStr ''rgba'') (PBool True) (PInt 0)) ''crop'' = Some (PStr ''true'') \<and>
   map_of (build_common_data (PStr ''regular'') (PStr ''auto'') (PStr ''none'') (PStr ''auto'')
             (PStr ''0 0 100% 100%'') (PStr ''10px'') (PStr ''original'') (PStr ''original'')
             (PStr ''rgba'') (PBool True) (PInt 0)) ''crop_margin'' = Some (PStr ''10px'')"
  using build_common_data_flags [of "PStr ''regular''" "PStr ''auto''" "PStr ''none''"
      "PStr ''auto''" "PStr ''0 0 100% 100%''" "PStr ''10px''" "PStr ''original''"
      "PStr ''original''" "PStr ''rgba''" "PBool True" "PInt 0"]
  by simp

subsection \<open>Evaluation on concrete inputs\<close>

lemmas eval_defs =
  remove_background_from_img_file_def remove_background_from_img_url_def
  remove_background_from_base64_img_def check_arguments_def allowed_size_def allowed_type_def
  allowed_type_level_def allowed_format_def allowed_channels_def defaults_def
  example_world_def example_client_def mock_env_def init_def open_rb_def attach_background_def
  post_and_deliver_def session_post_def request_of_def handle_response_def
  raise_for_status_def output_file_def error_reason_def close_bg_def close_handle_def
  common_data_def build_common_data_def Let_def sent_def answered_def bg_fields_def
  has_field_def dict_get_def entry_operations_def valid_arguments_def lower_def
  lower_char_def char_of_eq_iff

subsection \<open>File handles\<close>

text \<open>
  Claim C8. For each of the three entry operations and every way the call can end
  (an argument rejected, a file that cannot be opened, an exception of the \<open>post\<close>, an
  error status, an exception while the response is handled, a normal return), every
  handle opened during the call is among the handles closed during the call. The image
  handle is closed by the \<open>with\<close> statement and the background handle by the \<open>finally\<close>
  clause, each on every outcome of the code it encloses.
\<close>

theorem handles_closed_on_every_exit:
  assumes "op \<in> entry_operations"
  shows "released w (snd (op e self w src a))"
  using assms
proof (cases rule: entry_operation_cases [where e = e and self = self and w = w and src = src and a = a])
  case (failed ex hs)
  then show ?thesis by (simp add: released_def)
next
  case (request hs fo data)
  obtain os where
    "opened (snd (post_and_deliver e self (w\<lparr>opened := opened w @ hs\<rparr>) fo data
        (new_file_name a) (return_bytes a))) = opened (w\<lparr>opened := opened w @ hs\<rparr>) @ os"
    "closed (snd (post_and_deliver e self (w\<lparr>opened := opened w @ hs\<rparr>) fo data
        (new_file_name a) (return_bytes a))) = closed (w\<lparr>opened := opened w @ hs\<rparr>) @ os"
    using post_and_deliver_handles by blast
  with request(2) show ?thesis by (auto simp: released_def)
qed

theorem handles_closed_on_every_exit_witness:
  "remove_background_from_img_file \<in> entry_operations \<and>
   released example_world
     (snd (remove_background_from_img_file (mock_env PostRaises Written) example_client
             example_world (PStr ''in.jpg'')
             (defaults\<lparr>bg := PStr ''bg.jpg'', bg_type := PStr ''path''\<rparr>))) \<and>
   fst (remove_background_from_img_file (mock_env PostRaises Written) example_client
             example_world (PStr ''in.jpg'')
             (defaults\<lparr>bg := PStr ''bg.jpg'', bg_type := PStr ''path''\<rparr>)) = Inl TransportError \<and>
   opened (snd (remove_background_from_img_file (mock_env PostRaises Written) example_client
             example_world (PStr ''in.jpg'')
             (defaults\<lparr>bg := PStr ''bg.jpg'', bg_type := PStr ''path''\<rparr>))) = [0, 1] \<and>
   closed (snd (remove_background_from_img_file (mock_env PostRaises Written) example_client
             example_world (PStr ''in.jpg'')
             (defaults\<lparr>bg := PStr ''bg.jpg'', bg_type := PStr ''path''\<rparr>))) = [0, 1]"
proof -
  have m: "remove_background_from_img_file \<in> entry_operations"
    by (simp add: entry_operations_def)
  have ev: "fst (remove_background_from_img_file (mock_env PostRaises Written) example_client
             example_world (PStr ''in.jpg'')
             (defaults\<lparr>bg := PStr ''bg.jpg'', bg_type := PStr ''path''\<rparr>)) = Inl TransportError \<and>
   opened (snd (remove_background_from_img_file (mock_env PostRaises Written) example_client
             example_world (PStr ''in.jpg'')
             (defaults\<lparr>bg := PStr ''bg.jpg'', bg_type := PStr ''path''\<rparr>))) = [0, 1] \<and>
   closed (snd (remove_background_from_img_file (mock_env PostRaises Written) example_client
             example_world (PStr ''in.jpg'')
             (defaults\<lparr>bg := PStr ''bg.jpg'', bg_type := PStr ''path''\<rparr>))) = [0, 1]"
    by (simp add: eval_defs released_def)
  from m ev handles_closed_on_every_exit [OF m, of example_world "mock_env PostRaises Written"
      example_client "PStr ''in.jpg''" "defaults\<lparr>bg := PStr ''bg.jpg'', bg_type := PStr ''path''\<rparr>"]
  show ?thesis by blast
qed

subsection \<open>Background selection\<close>

text \<open>
  Claim C5. A call of one of the three entry operations that gets as far as the request
  (valid options, a consumption mode in the URL and base64 operations, the image file
  and a named background file opened) sends exactly one request, and that request
  carries the background field that goes with the arguments: when a background value is
  given (truthy) and \<open>bg_type\<close> is \<open>path\<close>, \<open>color\<close> or \<open>url\<close> it has \<open>bg_image_file\<close> (a file
  part), \<open>bg_color\<close> or \<open>bg_image_url\<close> respectively and neither of the other two;
  otherwise it has none of the three. A call that does not get that far sends nothing,
  so every request any call sends is of this kind, and no call sends two.
\<close>

theorem background_field_selection:
  "(valid_arguments a \<and> fs w src \<noteq> None \<and>
     \<not> (bg_type a = PStr ''path'' \<and> truthy (bg a) \<and> fs w (bg a) = None) \<longrightarrow>
       (\<exists>r. sent w (snd (remove_background_from_img_file e self w src a)) = [r] \<and>
            bg_fields r = selected_background a)) \<and>
   (valid_arguments a \<and> (truthy (return_bytes a) \<or> new_file_name a \<noteq> PNone) \<and>
     \<not> (bg_type a = PStr ''path'' \<and> truthy (bg a) \<and> fs w (bg a) = None) \<longrightarrow>
       (\<exists>r. sent w (snd (remove_background_from_img_url e self w src a)) = [r] \<and>
            bg_fields r = selected_background a) \<and>
       (\<exists>r. sent w (snd (remove_background_from_base64_img e self w src a)) = [r] \<and>
            bg_fields r = selected_background a)) \<and>
   (\<forall>op \<in> entry_operations.
      length (sent w (snd (op e self w src a))) \<le> 1 \<and>
      (\<forall>r \<in> set (sent w (snd (op e self w src a))).
         (truthy (bg a) \<and> bg_type a = PStr ''path'' \<longrightarrow> bg_fields r = [''bg_image_file'']) \<and>
         (truthy (bg a) \<and> bg_type a = PStr ''color'' \<longrightarrow> bg_fields r = [''bg_color'']) \<and>
         (truthy (bg a) \<and> bg_type a = PStr ''url'' \<longrightarrow> bg_fields r = [''bg_image_url'']) \<and>
         (\<not> (truthy (bg a) \<and> bg_type a \<in> {PStr ''path'', PStr ''color'', PStr ''url''}) \<longrightarrow>
            bg_fields r = []) \<and>
         length (bg_fields r) \<le> 1))"
proof (intro conjI impI ballI)
  assume h: "valid_arguments a \<and> fs w src \<noteq> None \<and>
     \<not> (bg_type a = PStr ''path'' \<and> truthy (bg a) \<and> fs w (bg a) = None)"
  show "\<exists>r. sent w (snd (remove_background_from_img_file e self w src a)) = [r] \<and>
      bg_fields r = selected_background a"
  proof (cases rule: img_file_cases [of a e self w src])
    case (rejected msg)
    with h show ?thesis by blast
  next
    case (unopened hs)
    from h unopened(2) have False by auto
    then show ?thesis ..
  next
    case (request hs fo data)
    then show ?thesis by (simp add: sent_def post_and_deliver_posts)
  qed
next
  assume h: "valid_arguments a \<and> (truthy (return_bytes a) \<or> new_file_name a \<noteq> PNone) \<and>
     \<not> (bg_type a = PStr ''path'' \<and> truthy (bg a) \<and> fs w (bg a) = None)"
  show "\<exists>r. sent w (snd (remove_background_from_img_url e self w src a)) = [r] \<and>
      bg_fields r = selected_background a"
  proof (cases rule: img_url_cases [of a e self w src])
    case (rejected msg)
    from h rejected(1) have False by auto
    then show ?thesis ..
  next
    case unopened
    from h unopened(3) have False by auto
    then show ?thesis ..
  next
    case (request hs fo data)
    then show ?thesis by (simp add: sent_def post_and_deliver_posts)
  qed
  show "\<exists>r. sent w (snd (remove_background_from_base64_img e self w src a)) = [r] \<and>
      bg_fields r = selected_background a"
  proof (cases rule: base64_img_cases [of a e self w src])
    case (rejected msg)
    from h rejected(1) have False by auto
    then show ?thesis ..
  next
    case unopened
    from h unopened(3) have False by auto
    then show ?thesis ..
  next
    case (request hs fo data)
    then show ?thesis by (simp add: sent_def post_and_deliver_posts)
  qed
next
  fix op :: "env \<Rightarrow> RemoveBg \<Rightarrow> world \<Rightarrow> pyval \<Rightarrow> kwargs \<Rightarrow> (error + pyval) \<times> world"
  assume m: "op \<in> entry_operations"
  from m show "length (sent w (snd (op e self w src a))) \<le> 1"
  proof (cases rule: sent_entry [where e = e and self = self and w = w and src = src and a = a])
    case (nothing ex)
    then show ?thesis by simp
  next
    case (one r')
    then show ?thesis by simp
  qed
  fix r
  assume r: "r \<in> set (sent w (snd (op e self w src a)))"
  from m have sel: "bg_fields r = selected_background a"
  proof (cases rule: sent_entry [where e = e and self = self and w = w and src = src and a = a])
    case (nothing ex)
    with r show ?thesis by simp
  next
    case (one r')
    with r show ?thesis by simp
  qed
  show "truthy (bg a) \<and> bg_type a = PStr ''path'' \<Longrightarrow> bg_fields r = [''bg_image_file'']"
    using sel by (simp add: selected_background_def)
  show "truthy (bg a) \<and> bg_type a = PStr ''color'' \<Longrightarrow> bg_fields r = [''bg_color'']"
    using sel by (simp add: selected_background_def)
  show "truthy (bg a) \<and> bg_type a = PStr ''url'' \<Longrightarrow> bg_fields r = [''bg_image_url'']"
    using sel by (simp add: selected_background_def)
  show "\<not> (truthy (bg a) \<and> bg_type a \<in> {PStr ''path'', PStr ''color'', PStr ''url''}) \<Longrightarrow>
      bg_fields r = []"
    using sel by (auto simp: selected_background_def)
  show "length (bg_fields r) \<le> 1"
    using sel by (simp add: selected_background_def)
qed


theorem background_field_selection_witness:
  "sent example_world
     (snd (remove_background_from_img_file (mock_env PostRaises Written) example_client
             example_world (PStr ''in.jpg'')
             (defaults\<lparr>bg := PStr ''bg.jpg'', bg_type := PStr ''path''\<rparr>)))
     \<noteq> [] \<and>
   bg_fields (hd (sent example_world
     (snd (remove_background_from_img_file (mock_env PostRaises Written) example_client
             example_world (PStr ''in.jpg'')
             (defaults\<lparr>bg := PStr ''bg.jpg'', bg_type := PStr ''path''\<rparr>)))))
     = [''bg_image_file''] \<and>
   sent example_world
     (snd (remove_background_from_img_url (mock_env PostRaises Written) example_client
             example_world (PStr ''http://host/in.jpg'')
             (defaults\<lparr>bg := PStr ''red'', bg_type := PStr ''color''\<rparr>)))
     \<noteq> [] \<and>
   bg_fields (hd (sent example_world
     (snd (remove_background_from_img_url (mock_env PostRaises Written) example_client
             example_world (PStr ''http://host/in.jpg'')
             (defaults\<lparr>bg := PStr ''red'', bg_type := PStr ''color''\<rparr>)))))
     = [''bg_color''] \<and>
   sent example_world
     (snd (remove_background_from_base64_img (mock_env PostRaises Written) example_client
             example_world (PStr ''aGVsbG8='')
             (defaults\<lparr>bg := PStr ''http://host/bg.jpg'', bg_type := PStr ''url''\<rparr>)))
     \<noteq> [] \<and>
   bg_fields (hd (sent example_world
     (snd (remove_background_from_base64_img (mock_env PostRaises Written) example_client
             example_world (PStr ''aGVsbG8='')
             (defaults\<lparr>bg := PStr ''http://host/bg.jpg'', bg_type := PStr ''url''\<rparr>)))))
     = [''bg_image_url''] \<and>
   length (sent example_world
     (snd (remove_background_from_img_file (mock_env PostRaises Written) example_client
             example_world (PStr ''in.jpg'')
             (defaults\<lparr>bg := PStr ''bg.jpg'', bg_type := PStr ''path''\<rparr>)))) \<le> 1"
proof -
  let ?e = "mock_env PostRaises Written"
  let ?p = "defaults\<lparr>bg := PStr ''bg.jpg'', bg_type := PStr ''path''\<rparr>"
  let ?c = "defaults\<lparr>bg := PStr ''red'', bg_type := PStr ''color''\<rparr>"
  let ?u = "defaults\<lparr>bg := PStr ''http://host/bg.jpg'', bg_type := PStr ''url''\<rparr>"
  have hp: "valid_arguments ?p \<and> fs example_world (PStr ''in.jpg'') \<noteq> None \<and>
      \<not> (bg_type ?p = PStr ''path'' \<and> truthy (bg ?p) \<and> fs example_world (bg ?p) = None)"
    by (simp add: eval_defs)
  have hc: "valid_arguments ?c \<and> (truthy (return_bytes ?c) \<or> new_file_name ?c \<noteq> PNone) \<and>
      \<not> (bg_type ?c = PStr ''path'' \<and> truthy (bg ?c) \<and> fs example_world (bg ?c) = None)"
    by (simp add: eval_defs)
  have hu: "valid_arguments ?u \<and> (truthy (return_bytes ?u) \<or> new_file_name ?u \<noteq> PNone) \<and>
      \<not> (bg_type ?u = PStr ''path'' \<and> truthy (bg ?u) \<and> fs example_world (bg ?u) = None)"
    by (simp add: eval_defs)
  have sp: "selected_background ?p = [''bg_image_file'']"
    and sc: "selected_background ?c = [''bg_color'']"
    and su: "selected_background ?u = [''bg_image_url'']"
    by (simp_all add: selected_background_def defaults_def)
  from background_field_selection [of ?p example_world "PStr ''in.jpg''" ?e example_client] hp
  obtain r1 where
    "sent example_world (snd (remove_background_from_img_file ?e example_client
        example_world (PStr ''in.jpg'') ?p)) = [r1]" "bg_fields r1 = selected_background ?p"
    by blast
  with sp have p1: "sent example_world (snd (remove_background_from_img_file ?e
        example_client example_world (PStr ''in.jpg'') ?p)) \<noteq> []"
      "bg_fields (hd (sent example_world (snd (remove_background_from_img_file ?e
        example_client example_world (PStr ''in.jpg'') ?p)))) = [''bg_image_file'']"
    by simp_all
  from background_field_selection [of ?c example_world "PStr ''http://host/in.jpg''" ?e
      example_client] hc
  obtain r2 where
    "sent example_world (snd (remove_background_from_img_url ?e example_client
        example_world (PStr ''http://host/in.jpg'') ?c)) = [r2]"
    "bg_fields r2 = selected_background ?c"
    by blast
  with sc have p2: "sent example_world (snd (remove_background_from_img_url ?e
        example_client example_world (PStr ''http://host/in.jpg'') ?c)) \<noteq> []"
      "bg_fields (hd (sent example_world (snd (remove_background_from_img_url ?e
        example_client example_world (PStr ''http://host/in.jpg'') ?c)))) = [''bg_color'']"
    by simp_all
  from background_field_selection [of ?u example_world "PStr ''aGVsbG8=''" ?e example_client] hu
  obtain r3 where
    "sent example_world (snd (remove_background_from_base64_img ?e example_client
        example_world (PStr ''aGVsbG8='') ?u)) = [r3]"
    "bg_fields r3 = selected_background ?u"
    by blast
  with su have p3: "sent example_world (snd (remove_background_from_base64_img ?e
        example_client example_world (PStr ''aGVsbG8='') ?u)) \<noteq> []"
      "bg_fields (hd (sent example_world (snd (remove_background_from_base64_img ?e
        example_client example_world (PStr ''aGVsbG8='') ?u)))) = [''bg_image_url'']"
    by simp_all
  have m: "remove_background_from_img_file \<in> entry_operations"
    by (simp add: entry_operations_def)
  from background_field_selection [of ?p example_world "PStr ''in.jpg''" ?e example_client] m
  have p4: "length (sent example_world (snd (remove_background_from_img_file ?e
        example_client example_world (PStr ''in.jpg'') ?p))) \<le> 1"
    by blast
  from p1 p2 p3 p4 show ?thesis by blast
qed

subsection \<open>Ignored background specifications\<close>

lemma common_data_ignores_background:
  "common_data (a\<lparr>bg := b, bg_type := bt\<rparr>) = common_data a"
  by (simp add: common_data_def)

text \<open>
  Claim C10. When \<open>bg_type\<close> is none of \<open>path\<close>, \<open>url\<close>, \<open>color\<close>, or the background value
  is \<open>None\<close> or empty (not truthy), the background block adds no field, opens no file and
  raises nothing; the whole call is the call without a background specification, and no
  request it sends has a background field.
\<close>

theorem unusable_background_ignored:
  assumes "op \<in> entry_operations"
    and "bg_type a \<notin> {PStr ''path'', PStr ''url'', PStr ''color''} \<or> \<not> truthy (bg a)"
  shows "attach_background w files data (bg a) (bg_type a) = Inr (files, data, None, w) \<and>
         op e self w src a = op e self w src (a\<lparr>bg := PNone, bg_type := PNone\<rparr>) \<and>
         (\<forall>r \<in> set (sent w (snd (op e self w src a))). bg_fields r = [])"
proof -
  from assms(2) have n: "\<not> (bg_type a = PStr ''path'' \<and> truthy (bg a))"
    "\<not> (bg_type a = PStr ''color'' \<and> truthy (bg a))"
    "\<not> (bg_type a = PStr ''url'' \<and> truthy (bg a))"
    by auto
  have att: "attach_background w' fl d (bg a) (bg_type a) = Inr (fl, d, None, w')"
    for w' fl d
    by (rule attach_background_none [OF n])
  have att': "attach_background w' fl d PNone PNone = Inr (fl, d, None, w')" for w' fl d
    by (simp add: attach_background_def)
  have same: "op e self w src a = op e self w src (a\<lparr>bg := PNone, bg_type := PNone\<rparr>)"
    using assms(1)
    by (auto simp: entry_operations_def remove_background_from_img_file_def
          remove_background_from_img_url_def remove_background_from_base64_img_def
          att att' common_data_ignores_background cong: sum.case_cong prod.case_cong)
  have none: "\<forall>r \<in> set (sent w (snd (op e self w src a))). bg_fields r = []"
    using assms(1)
  proof (cases rule: sent_entry [where e = e and self = self and w = w and src = src and a = a])
    case (nothing ex)
    then show ?thesis by simp
  next
    case (one r')
    then show ?thesis by (simp add: selected_background_none [OF n])
  qed
  from att same none show ?thesis by blast
qed

theorem unusable_background_ignored_witness:
  "remove_background_from_base64_img \<in> entry_operations \<and>
   remove_background_from_base64_img (mock_env PostRaises Written) example_client example_world
       (PStr ''aGVsbG8='') (defaults\<lparr>bg := PStr ''red'', bg_type := PStr ''colour''\<rparr>) =
     remove_background_from_base64_img (mock_env PostRaises Written) example_client example_world
       (PStr ''aGVsbG8='')
       (defaults\<lparr>bg := PStr ''red'', bg_type := PStr ''colour'', bg := PNone, bg_type := PNone\<rparr>) \<and>
   bg_fields (hd (sent example_world
       (snd (remove_background_from_base64_img (mock_env PostRaises Written) example_client
               example_world (PStr ''aGVsbG8='')
               (defaults\<lparr>bg := PStr ''red'', bg_type := PStr ''colour''\<rparr>))))) = [] \<and>
   length (sent example_world
       (snd (remove_background_from_base64_img (mock_env PostRaises Written) example_client
               example_world (PStr ''aGVsbG8='')
               (defaults\<lparr>bg := PStr ''red'', bg_type := PStr ''colour''\<rparr>)))) = 1"
proof -
  have m: "remove_background_from_base64_img \<in> entry_operations"
    by (simp add: entry_operations_def)
  have h: "bg_type (defaults\<lparr>bg := PStr ''red'', bg_type := PStr ''colour''\<rparr>)
             \<notin> {PStr ''path'', PStr ''url'', PStr ''color''} \<or>
           \<not> truthy (bg (defaults\<lparr>bg := PStr ''red'', bg_type := PStr ''colour''\<rparr>))"
    by simp
  have s: "hd (sent example_world
       (snd (remove_background_from_base64_img (mock_env PostRaises Written) example_client
               example_world (PStr ''aGVsbG8='')
               (defaults\<lparr>bg := PStr ''red'', bg_type := PStr ''colour''\<rparr>))))
     \<in> set (sent example_world
       (snd (remove_background_from_base64_img (mock_env PostRaises Written) example_client
               example_world (PStr ''aGVsbG8='')
               (defaults\<lparr>bg := PStr ''red'', bg_type := PStr ''colour''\<rparr>))))"
     "length (sent example_world
       (snd (remove_background_from_base64_img (mock_env PostRaises Written) example_client
               example_world (PStr ''aGVsbG8='')
               (defaults\<lparr>bg := PStr ''red'', bg_type := PStr ''colour''\<rparr>)))) = 1"
    by (simp_all add: eval_defs)
  from unusable_background_ignored [OF m h, of example_world "[]" "[]"
      "mock_env PostRaises Written" example_client "PStr ''aGVsbG8=''"] m s
  show ?thesis by blast
qed

subsection \<open>Consumption modes\<close>

text \<open>
  Claim C3. In the URL and base64 operations, a call with \<open>new_file_name\<close> \<open>None\<close> and
  \<open>return_bytes\<close> not set raises \<open>ValueError\<close> and leaves the world as it was (no \<open>post\<close>,
  no file opened). A call with valid options and at least one of the two set is not
  stopped by the check: it raises no \<open>ValueError\<close>, it sends its request unless the
  background file cannot be opened, and on a response with status 200 it returns
  normally.
\<close>

theorem consumption_mode_required:
  assumes "op = remove_background_from_img_url \<or> op = remove_background_from_base64_img"
  shows "(\<not> truthy (return_bytes a) \<and> new_file_name a = PNone \<longrightarrow>
            (\<exists>msg. op e self w src a = (Inl (ValueError msg), w))) \<and>
         ((truthy (return_bytes a) \<or> new_file_name a \<noteq> PNone) \<and> valid_arguments a \<longrightarrow>
            (\<forall>msg. fst (op e self w src a) \<noteq> Inl (ValueError msg)) \<and>
            (\<not> (bg_type a = PStr ''path'' \<and> truthy (bg a) \<and> fs w (bg a) = None) \<longrightarrow>
               length (sent w (snd (op e self w src a))) = 1) \<and>
            (\<forall>resp. answered e w (snd (op e self w src a)) resp \<and> status_code resp = 200 \<longrightarrow>
               fst (op e self w src a) =
                 Inr (if truthy (return_bytes a) then PBytes (content resp) else PNone)))"
proof (intro conjI impI)
  assume unset: "\<not> truthy (return_bytes a) \<and> new_file_name a = PNone"
  obtain msg where
    "check_arguments (size_arg a) (type_arg a) (type_level a) (format a) (channels a)
       = Inl (ValueError msg) \<or>
     check_arguments (size_arg a) (type_arg a) (type_level a) (format a) (channels a) = Inr ()"
    using check_arguments_valid check_arguments_invalid by blast
  with unset assms show "\<exists>msg. op e self w src a = (Inl (ValueError msg), w)"
    by (auto simp: remove_background_from_img_url_def remove_background_from_base64_img_def)
next
  assume pass: "(truthy (return_bytes a) \<or> new_file_name a \<noteq> PNone) \<and> valid_arguments a"
  from assms have m: "op \<in> entry_operations"
    by (auto simp: entry_operations_def)
  from assms show "\<forall>msg. fst (op e self w src a) \<noteq> Inl (ValueError msg)"
  proof (cases rule: form_variant_cases [where e = e and self = self and w = w and src = src and a = a])
    case (rejected msg)
    with pass show ?thesis by blast
  next
    case unopened
    then show ?thesis by simp
  next
    case (request hs fo data)
    then show ?thesis by (simp add: post_and_deliver_not_ValueError)
  qed
  show "length (sent w (snd (op e self w src a))) = 1"
    if open_ok: "\<not> (bg_type a = PStr ''path'' \<and> truthy (bg a) \<and> fs w (bg a) = None)"
    using assms
  proof (cases rule: form_variant_cases [where e = e and self = self and w = w and src = src and a = a])
    case (rejected msg)
    with pass show ?thesis by blast
  next
    case unopened
    with open_ok show ?thesis by blast
  next
    case (request hs fo data)
    then show ?thesis by (simp add: sent_def post_and_deliver_posts)
  qed
  show "\<forall>resp. answered e w (snd (op e self w src a)) resp \<and> status_code resp = 200 \<longrightarrow>
          fst (op e self w src a) =
            Inr (if truthy (return_bytes a) then PBytes (content resp) else PNone)"
  proof (intro allI impI)
    fix resp
    assume r: "answered e w (snd (op e self w src a)) resp \<and> status_code resp = 200"
    then obtain w' where
      "fst (op e self w src a) =
         fst (handle_response e w' resp (new_file_name a) (return_bytes a))"
      using answered_entry [OF m] by blast
    with r show "fst (op e self w src a) =
        Inr (if truthy (return_bytes a) then PBytes (content resp) else PNone)"
      by (simp add: handle_response_fst_ok)
  qed
qed

theorem consumption_mode_required_witness:
  "(\<exists>msg. remove_background_from_img_url (mock_env (PostReturns ok_response) Written)
            example_client example_world (PStr ''http://host/in.jpg'')
            (defaults\<lparr>new_file_name := PNone\<rparr>) = (Inl (ValueError msg), example_world)) \<and>
   fst (remove_background_from_img_url (mock_env (PostReturns ok_response) Written)
          example_client example_world (PStr ''http://host/in.jpg'')
          (defaults\<lparr>new_file_name := PNone, return_bytes := PBool True\<rparr>))
     = Inr (PBytes ''PNG'') \<and>
   length (sent example_world
     (snd (remove_background_from_img_url (mock_env (PostReturns ok_response) Written)
          example_client example_world (PStr ''http://host/in.jpg'')
          (defaults\<lparr>new_file_name := PNone, return_bytes := PBool True\<rparr>)))) = 1"
proof -
  let ?e = "mock_env (PostReturns ok_response) Written"
  let ?u = "PStr ''http://host/in.jpg''"
  let ?a1 = "defaults\<lparr>new_file_name := PNone\<rparr>"
  let ?a2 = "defaults\<lparr>new_file_name := PNone, return_bytes := PBool True\<rparr>"
  have m: "remove_background_from_img_url = remove_background_from_img_url \<or>
           remove_background_from_img_url = remove_background_from_base64_img"
    by simp
  have h1: "\<not> truthy (return_bytes ?a1) \<and> new_file_name ?a1 = PNone"
    by (simp add: defaults_def)
  have h2: "(truthy (return_bytes ?a2) \<or> new_file_name ?a2 \<noteq> PNone) \<and> valid_arguments ?a2"
    by (simp add: eval_defs ok_response_def)
  have h3: "\<not> (bg_type ?a2 = PStr ''path'' \<and> truthy (bg ?a2) \<and> fs example_world (bg ?a2) = None)"
    by (simp add: defaults_def)
  have h4: "answered ?e example_world
      (snd (remove_background_from_img_url ?e example_client example_world ?u ?a2)) ok_response
      \<and> status_code ok_response = 200"
    by (simp add: eval_defs ok_response_def)
  have c: "content ok_response = ''PNG''" "truthy (return_bytes ?a2)"
    by (simp_all add: ok_response_def)
  from consumption_mode_required [OF m, of ?a1 ?e example_client example_world ?u] h1
  have p1: "\<exists>msg. remove_background_from_img_url ?e example_client example_world ?u ?a1
      = (Inl (ValueError msg), example_world)"
    by blast
  from consumption_mode_required [OF m, of ?a2 ?e example_client example_world ?u] h2 h3 h4
  have p2: "fst (remove_background_from_img_url ?e example_client example_world ?u ?a2)
        = Inr (if truthy (return_bytes ?a2) then PBytes (content ok_response) else PNone)"
    and p3: "length (sent example_world
        (snd (remove_background_from_img_url ?e example_client example_world ?u ?a2))) = 1"
    by blast+
  from p1 p2 p3 c show ?thesis by simp
qed

subsection \<open>The file variant without a consumption mode\<close>

text \<open>
  Claim C9. The file operation has no consumption-mode check. With valid options,
  \<open>new_file_name\<close> \<open>None\<close> and \<open>return_bytes\<close> not set, the call raises no \<open>ValueError\<close>;
  once the image (and the background file, if one is named) is opened it sends its
  request; and when the session answers with a status outside 400..599 it returns
  \<open>None\<close>, having written no file and logged nothing.
\<close>

theorem file_variant_has_no_consumption_check:
  assumes "valid_arguments a" "new_file_name a = PNone" "\<not> truthy (return_bytes a)"
  shows "(\<forall>msg. fst (remove_background_from_img_file e self w src a) \<noteq> Inl (ValueError msg)) \<and>
         (fs w src \<noteq> None \<and>
          \<not> (bg_type a = PStr ''path'' \<and> truthy (bg a) \<and> fs w (bg a) = None) \<longrightarrow>
            length (sent w (snd (remove_background_from_img_file e self w src a))) = 1) \<and>
         (\<forall>resp. answered e w (snd (remove_background_from_img_file e self w src a)) resp \<and>
                 \<not> (400 \<le> status_code resp \<and> status_code resp < 600) \<longrightarrow>
            fst (remove_background_from_img_file e self w src a) = Inr PNone \<and>
            fs (snd (remove_background_from_img_file e self w src a)) = fs w \<and>
            logged (snd (remove_background_from_img_file e self w src a)) = logged w)"
proof (intro conjI allI impI)
  fix msg
  show "fst (remove_background_from_img_file e self w src a) \<noteq> Inl (ValueError msg)"
  proof (cases rule: img_file_cases [of a e self w src])
    case (rejected msg')
    with assms(1) show ?thesis by blast
  next
    case (unopened hs)
    then show ?thesis by simp
  next
    case (request hs fo data)
    then show ?thesis by (simp add: post_and_deliver_not_ValueError)
  qed
next
  assume ok: "fs w src \<noteq> None \<and>
      \<not> (bg_type a = PStr ''path'' \<and> truthy (bg a) \<and> fs w (bg a) = None)"
  show "length (sent w (snd (remove_background_from_img_file e self w src a))) = 1"
  proof (cases rule: img_file_cases [of a e self w src])
    case (rejected msg')
    with assms(1) show ?thesis by blast
  next
    case (unopened hs)
    from ok unopened(2) have False by auto
    then show ?thesis ..
  next
    case (request hs fo data)
    then show ?thesis by (simp add: sent_def post_and_deliver_posts)
  qed
next
  fix resp
  assume r: "answered e w (snd (remove_background_from_img_file e self w src a)) resp \<and>
      \<not> (400 \<le> status_code resp \<and> status_code resp < 600)"
  have m: "remove_background_from_img_file \<in> entry_operations"
    by (simp add: entry_operations_def)
  from r have pass: "raise_for_status resp = Inr ()"
    by (simp add: raise_for_status_passes)
  from assms(2) have n: "\<not> truthy (new_file_name a)"
    by simp
  from r obtain w' where w': "fs w' = fs w" "logged w' = logged w"
    "fst (remove_background_from_img_file e self w src a) =
       fst (handle_response e w' resp (new_file_name a) (return_bytes a))"
    "fs (snd (remove_background_from_img_file e self w src a)) =
       fs (snd (handle_response e w' resp (new_file_name a) (return_bytes a)))"
    "logged (snd (remove_background_from_img_file e self w src a)) =
       logged (snd (handle_response e w' resp (new_file_name a) (return_bytes a)))"
    using answered_entry [OF m] by blast
  from w' assms(3)
  show "fst (remove_background_from_img_file e self w src a) = Inr PNone"
    "fs (snd (remove_background_from_img_file e self w src a)) = fs w"
    "logged (snd (remove_background_from_img_file e self w src a)) = logged w"
    by (simp_all add: handle_response_no_name [OF pass n])
qed

theorem file_variant_has_no_consumption_check_witness:
  "length (sent example_world
     (snd (remove_background_from_img_file (mock_env (PostReturns ok_response) Written)
             example_client example_world (PStr ''in.jpg'')
             (defaults\<lparr>new_file_name := PNone\<rparr>)))) = 1 \<and>
   fst (remove_background_from_img_file (mock_env (PostReturns ok_response) Written)
          example_client example_world (PStr ''in.jpg'')
          (defaults\<lparr>new_file_name := PNone\<rparr>)) = Inr PNone \<and>
   fs (snd (remove_background_from_img_file (mock_env (PostReturns ok_response) Written)
          example_client example_world (PStr ''in.jpg'')
          (defaults\<lparr>new_file_name := PNone\<rparr>))) = fs example_world \<and>
   logged (snd (remove_background_from_img_file (mock_env (PostReturns ok_response) Written)
          example_client example_world (PStr ''in.jpg'')
          (defaults\<lparr>new_file_name := PNone\<rparr>))) = logged example_world"
proof -
  let ?e = "mock_env (PostReturns ok_response) Written"
  let ?a = "defaults\<lparr>new_file_name := PNone\<rparr>"
  have h: "valid_arguments ?a" "new_file_name ?a = PNone" "\<not> truthy (return_bytes ?a)"
    by (simp_all add: eval_defs ok_response_def)
  have o: "fs example_world (PStr ''in.jpg'') \<noteq> None \<and>
      \<not> (bg_type ?a = PStr ''path'' \<and> truthy (bg ?a) \<and> fs example_world (bg ?a) = None)"
    by (simp add: defaults_def example_world_def)
  have r: "answered ?e example_world
      (snd (remove_background_from_img_file ?e example_client example_world (PStr ''in.jpg'') ?a))
      ok_response \<and>
      \<not> (400 \<le> status_code ok_response \<and> status_code ok_response < 600)"
    by (simp add: eval_defs ok_response_def)
  from file_variant_has_no_consumption_check [OF h, of ?e example_client example_world
      "PStr ''in.jpg''"] o r
  show ?thesis by blast
qed

subsection \<open>Responses that are not a success\<close>

text \<open>
  Claim C1, as the code has it. For a call of one of the three entry operations that was
  answered with a response: when the status is in 400..599, \<open>raise_for_status\<close> raises
  and the call ends with \<open>HTTPError\<close>, nothing is logged and no file is written. When the
  status is outside 400..599 and not 200, a non-empty \<open>new_file_name\<close> is given and the
  reason can be extracted from the body, the file name, the reason and the status code
  are logged, no file is written, and the call returns normally: \<open>None\<close>, or the body of
  the response when \<open>return_bytes\<close> is set.
\<close>

theorem non_success_status_handling:
  assumes "op \<in> entry_operations"
    and "answered e w (snd (op e self w src a)) resp"
  shows "(400 \<le> status_code resp \<and> status_code resp < 600 \<longrightarrow>
            fst (op e self w src a) = Inl (HTTPError (status_code resp)) \<and>
            logged (snd (op e self w src a)) = logged w \<and>
            fs (snd (op e self w src a)) = fs w) \<and>
         (\<not> (400 \<le> status_code resp \<and> status_code resp < 600) \<and> status_code resp \<noteq> 200 \<and>
          truthy (new_file_name a) \<longrightarrow>
            (\<forall>reason. error_reason resp = Inr reason \<longrightarrow>
               fst (op e self w src a) =
                 Inr (if truthy (return_bytes a) then PBytes (content resp) else PNone) \<and>
               logged (snd (op e self w src a)) =
                 logged w @ [SaveFailed (new_file_name a) reason (status_code resp)] \<and>
               fs (snd (op e self w src a)) = fs w))"
proof -
  from assms obtain w' where w': "fs w' = fs w" "logged w' = logged w"
    "fst (op e self w src a) =
       fst (handle_response e w' resp (new_file_name a) (return_bytes a))"
    "fs (snd (op e self w src a)) =
       fs (snd (handle_response e w' resp (new_file_name a) (return_bytes a)))"
    "logged (snd (op e self w src a)) =
       logged (snd (handle_response e w' resp (new_file_name a) (return_bytes a)))"
    by (rule answered_entry)
  have raised: "fst (op e self w src a) = Inl (HTTPError (status_code resp)) \<and>
      logged (snd (op e self w src a)) = logged w \<and> fs (snd (op e self w src a)) = fs w"
    if "400 \<le> status_code resp \<and> status_code resp < 600"
    using that w' by (simp add: handle_response_error_status)
  have logs: "fst (op e self w src a) =
        Inr (if truthy (return_bytes a) then PBytes (content resp) else PNone) \<and>
      logged (snd (op e self w src a)) =
        logged w @ [SaveFailed (new_file_name a) reason (status_code resp)] \<and>
      fs (snd (op e self w src a)) = fs w"
    if other: "\<not> (400 \<le> status_code resp \<and> status_code resp < 600) \<and>
        status_code resp \<noteq> 200 \<and> truthy (new_file_name a)"
      and reason: "error_reason resp = Inr reason" for reason
  proof -
    from other have "raise_for_status resp = Inr ()"
      by (simp add: raise_for_status_passes)
    with other reason w' show ?thesis
      by (simp add: handle_response_not_ok)
  qed
  from raised logs show ?thesis by blast
qed

theorem non_success_status_handling_witness:
  "fst (remove_background_from_img_url (mock_env (PostReturns not_found_response) Written)
          example_client example_world (PStr ''http://host/in.jpg'') defaults)
     = Inl (HTTPError 404) \<and>
   logged (snd (remove_background_from_img_url (mock_env (PostReturns not_found_response) Written)
          example_client example_world (PStr ''http://host/in.jpg'') defaults)) = [] \<and>
   fst (remove_background_from_img_url (mock_env (PostReturns redirect_response) Written)
          example_client example_world (PStr ''http://host/in.jpg'') defaults)
     = Inr PNone \<and>
   logged (snd (remove_background_from_img_url (mock_env (PostReturns redirect_response) Written)
          example_client example_world (PStr ''http://host/in.jpg'') defaults))
     = [SaveFailed (PStr ''no-bg.png'') ''foo bar'' 302]"
proof -
  let ?u = "PStr ''http://host/in.jpg''"
  let ?e1 = "mock_env (PostReturns not_found_response) Written"
  let ?e2 = "mock_env (PostReturns redirect_response) Written"
  have m: "remove_background_from_img_url \<in> entry_operations"
    by (simp add: entry_operations_def)
  have a1: "answered ?e1 example_world
      (snd (remove_background_from_img_url ?e1 example_client example_world ?u defaults))
      not_found_response"
    by (simp add: eval_defs not_found_response_def redirect_response_def error_body_def)
  have a2: "answered ?e2 example_world
      (snd (remove_background_from_img_url ?e2 example_client example_world ?u defaults))
      redirect_response"
    by (simp add: eval_defs not_found_response_def redirect_response_def error_body_def)
  have s1: "400 \<le> status_code not_found_response \<and> status_code not_found_response < 600"
    "status_code not_found_response = 404"
    by (simp_all add: not_found_response_def)
  have s2: "\<not> (400 \<le> status_code redirect_response \<and> status_code redirect_response < 600) \<and>
      status_code redirect_response \<noteq> 200 \<and> truthy (new_file_name defaults)"
    "status_code redirect_response = 302" "new_file_name defaults = PStr ''no-bg.png''"
    "\<not> truthy (return_bytes defaults)" "logged example_world = []"
    by (simp_all add: redirect_response_def defaults_def example_world_def)
  have r: "error_reason redirect_response = Inr ''foo bar''"
    by (simp add: eval_defs not_found_response_def redirect_response_def error_body_def)
  from non_success_status_handling [OF m a1] s1
  have p1: "fst (remove_background_from_img_url ?e1 example_client example_world ?u defaults)
      = Inl (HTTPError 404)"
    "logged (snd (remove_background_from_img_url ?e1 example_client example_world ?u defaults))
      = logged example_world"
    by simp_all
  from non_success_status_handling [OF m a2] s2(1) r
  have p2: "fst (remove_background_from_img_url ?e2 example_client example_world ?u defaults)
      = Inr (if truthy (return_bytes defaults) then PBytes (content redirect_response)
             else PNone)"
    "logged (snd (remove_background_from_img_url ?e2 example_client example_world ?u defaults))
      = logged example_world @
          [SaveFailed (new_file_name defaults) ''foo bar'' (status_code redirect_response)]"
    by blast+
  from p1 p2 s2 show ?thesis by simp
qed

text \<open>
  The claim as it is written fails on a response with status 404: the call was answered,
  the status is not a success status, and the call ends with an exception and an empty
  log.
\<close>

theorem error_status_is_raised_counterexample:
  "answered (mock_env (PostReturns not_found_response) Written) example_world
     (snd (remove_background_from_img_url (mock_env (PostReturns not_found_response) Written)
             example_client example_world (PStr ''http://host/in.jpg'') defaults))
     not_found_response \<and>
   \<not> (200 \<le> status_code not_found_response \<and> status_code not_found_response < 300) \<and>
   fst (remove_background_from_img_url (mock_env (PostReturns not_found_response) Written)
          example_client example_world (PStr ''http://host/in.jpg'') defaults)
     = Inl (HTTPError 404) \<and>
   logged (snd (remove_background_from_img_url (mock_env (PostReturns not_found_response) Written)
          example_client example_world (PStr ''http://host/in.jpg'') defaults)) = []"
  by (simp add: eval_defs not_found_response_def error_body_def)

subsection \<open>The success round trip\<close>





subsection \<open>The reason of an error response\<close>

text \<open>What \<open>_output_file\<close> does on a response whose status is not 200, by the result of
  the reason extraction.\<close>

lemma output_file_not_ok:
  assumes "status_code resp \<noteq> 200"
  shows "output_file e w resp n =
           (case error_reason resp of
              Inl ex \<Rightarrow> (Inl ex, w)
            | Inr reason \<Rightarrow>
                (Inr (), w\<lparr>logged := logged w @ [SaveFailed n reason (status_code resp)]\<rparr>))"
  using assms by (simp add: output_file_def)

text \<open>The extraction on the bodies the claim names: a body that is not JSON, a JSON
  value that is not an object, an object without \<open>errors\<close>, and the documented shape with
  a text as the first title.\<close>

lemma error_reason_documented_shapes:
  "json_body resp = None \<Longrightarrow> error_reason resp = Inr ''unknown error''"
  "json_body resp = Some (JArr xs) \<Longrightarrow> error_reason resp = Inr ''unknown error''"
  "json_body resp = Some (JObj kvs) \<Longrightarrow> dict_get kvs ''errors'' = None \<Longrightarrow>
     error_reason resp = Inr ''unknown error''"
  "json_body resp = Some (JObj kvs) \<Longrightarrow> dict_get kvs ''errors'' = Some (JArr []) \<Longrightarrow>
     error_reason resp = Inr ''unknown error''"
  "json_body resp = Some (JObj kvs) \<Longrightarrow>
     dict_get kvs ''errors'' = Some (JArr (JObj first # rest)) \<Longrightarrow>
     dict_get first ''title'' = Some (JStr title) \<Longrightarrow>
     error_reason resp = Inr (lower title)"
  "json_body resp = Some (JObj kvs) \<Longrightarrow>
     dict_get kvs ''errors'' = Some (JArr (JObj first # rest)) \<Longrightarrow>
     dict_get first ''title'' = None \<Longrightarrow>
     error_reason resp = Inr ''unknown error''"
  by (simp_all add: error_reason_def lower_def lower_char_def)

text \<open>
  Claim C6. The claim asks for the reason \<open>unknown error\<close> and a log record whenever the
  body does not have the expected shape. On the body \<open>{"errors": ["Bad Request"]}\<close> the
  first element of \<open>errors\<close> is a text, \<open>.get\<close> on it raises \<open>AttributeError\<close>, which the
  \<open>except ValueError\<close> clause does not catch: \<open>_output_file\<close> ends with that exception and
  logs nothing, and so does the entry operation that called it.
\<close>

theorem malformed_error_body_raises:
  "output_file (mock_env PostRaises Written) example_world malformed_error_response
       (PStr ''no-bg.png'') = (Inl AttributeError, example_world) \<and>
   fst (remove_background_from_img_url (mock_env (PostReturns malformed_error_response) Written)
          example_client example_world (PStr ''http://host/in.jpg'') defaults)
     = Inl AttributeError \<and>
   logged (snd (remove_background_from_img_url
                  (mock_env (PostReturns malformed_error_response) Written)
                  example_client example_world (PStr ''http://host/in.jpg'') defaults)) = []"
  by (simp add: eval_defs malformed_error_response_def)

end
